theory Spec2Isabelle
  imports Main "HOL-Library.Word"
begin

section \<open>The stopping policy of dnn-train.cpp\<close>

text \<open>
  \<^verbatim>\<open>size_t\<close> is an unsigned 64-bit integer: subtraction wraps around, and the
  comparison \<^verbatim>\<open>epoch - i > 0\<close> is made on the wrapped value.
\<close>

type_synonym size_t = "64 word"

text \<open>
  \<^verbatim>\<open>Eout[k]\<close> on a \<^verbatim>\<open>std::vector\<close>: the access is defined only for
  \<^verbatim>\<open>k < Eout.size()\<close>. An access outside the vector is \<open>None\<close>.
\<close>

definition vec_at :: "size_t list \<Rightarrow> size_t \<Rightarrow> size_t option" where
  "vec_at v k = (if unat k < length v then Some (v ! unat k) else None)"

text \<open>
  \<^verbatim>\<open>
  bool isEoutStopDecrease(const std::vector<size_t> Eout, size_t epoch, size_t nNonIncEpoch) {
    for (size_t i=0; i<nNonIncEpoch; ++i) {
      if (epoch - i > 0 && Eout[epoch] > Eout[epoch - i])
        return false;
    }
    return true;
  }
  \<close>
  The loop, from the counter \<open>i\<close> on. The conjunction is short-circuit: the vector is
  read only when \<^verbatim>\<open>epoch - i > 0\<close>, first at \<open>epoch\<close>, then at \<open>epoch - i\<close>.
\<close>

function isEoutStopDecrease_from ::
  "size_t list \<Rightarrow> size_t \<Rightarrow> size_t \<Rightarrow> size_t \<Rightarrow> bool option" where
  "isEoutStopDecrease_from Eout epoch nNonIncEpoch i =
     (if i < nNonIncEpoch then
        (if epoch - i > 0 then
           (case vec_at Eout epoch of
              None \<Rightarrow> None
            | Some a \<Rightarrow>
                (case vec_at Eout (epoch - i) of
                   None \<Rightarrow> None
                 | Some b \<Rightarrow>
                     if a > b then Some False
                     else isEoutStopDecrease_from Eout epoch nNonIncEpoch (i + 1)))
         else isEoutStopDecrease_from Eout epoch nNonIncEpoch (i + 1))
      else Some True)"
  by pat_completeness auto

lemma size_t_succ_unat:
  fixes i n :: size_t
  assumes "i < n"
  shows "unat (i + 1) = Suc (unat i)"
proof -
  from assms have "unat i < unat n" by (simp add: word_less_nat_alt)
  moreover have "unat n < 2 ^ 64" using unsigned_less [of n] by simp
  ultimately have "unat i + 1 < 2 ^ 64" by simp
  then show ?thesis by (simp add: unat_word_ariths)
qed

lemma size_t_succ_measure:
  fixes i n :: size_t
  assumes "i < n"
  shows "unat n - unat (i + 1) < unat n - unat i"
  using assms size_t_succ_unat [OF assms] by (simp add: word_less_nat_alt)

termination isEoutStopDecrease_from
  by (relation "measure (\<lambda>(Eout, epoch, n, i). unat n - unat i)")
     (simp_all add: size_t_succ_measure)

declare isEoutStopDecrease_from.simps [simp del]

definition isEoutStopDecrease :: "size_t list \<Rightarrow> size_t \<Rightarrow> size_t \<Rightarrow> bool option" where
  "isEoutStopDecrease Eout epoch nNonIncEpoch =
     isEoutStopDecrease_from Eout epoch nNonIncEpoch 0"

section \<open>Data of the training controller\<close>

text \<open>
  Modelled from the spec: the enumeration \<^verbatim>\<open>ERROR_MEASURE\<close> is declared in a header
  that is not part of the sources. The program names \<^verbatim>\<open>CROSS_ENTROPY\<close>; the spec names
  cross-entropy for classification and mean-squared error for regression.
\<close>

datatype ERROR_MEASURE = CROSS_ENTROPY | MEAN_SQUARED_ERROR

text \<open>
  Modelled from the spec: the structure \<^verbatim>\<open>Config\<close> is declared in the header of the
  network; \<^verbatim>\<open>main\<close> and \<^verbatim>\<open>dnn_train\<close> use the five fields below. The type \<open>'f\<close>
  stands for \<^verbatim>\<open>float\<close>, whose arithmetic is a parameter of the model.
\<close>

record 'f Config =
  variance :: 'f
  learningRate :: 'f
  minValidAccuracy :: 'f
  maxEpoch :: size_t
  nNonIncEpoch :: size_t

text \<open>
  What the controller prints, and the calls it makes that the network or the reader can
  observe, in the order in which they happen.
\<close>

datatype ('d, 's, 'm, 'f) event =
    Print_Training
  | Timer_start
  | Print_table_header
  | Call_backPropagate 'm 'm 'm 'f
  | Print_dot
  | Print_row size_t 'f size_t 'f size_t
  | Call_isEoutStopDecrease "size_t list" size_t size_t
  | Call_adjustLearningRate 'f
  | Print_epochs_total size_t
  | Timer_elapsed
  | Print_In_Sample
  | Print_Out_of_Sample
  | Call_showAccuracy size_t size_t
  | Call_setCacheSize size_t
  | Call_showSummary 's
  | Call_Config_print "'f Config"
  | Call_save 'd string

text \<open>
  The collaborators of \<^verbatim>\<open>dnn_train\<close> and \<^verbatim>\<open>dnn_predict\<close>: the network \<open>'d\<close>, the data
  set \<open>'s\<close>, the matrices \<open>'m\<close>, the batch iterator \<open>'b\<close> and the \<^verbatim>\<open>float\<close> operations
  the controller performs. None of them is in the sources, so each is a parameter.
  \<^item> \<open>feedForward_to d fout x\<close> is \<^verbatim>\<open>dnn.feedForward(fout, data.x)\<close>: it returns the
    network and the new \<open>fout\<close>;
  \<^item> \<open>feedForward d x\<close> is \<^verbatim>\<open>dnn.feedForward(d.x)\<close> on a \<^verbatim>\<open>const DNN&\<close>;
  \<^item> \<open>Batches batchSize total\<close> is the sequence an iteration from \<^verbatim>\<open>begin()\<close> to
    \<^verbatim>\<open>end()\<close> visits;
  \<^item> \<open>flt_div l b\<close> is \<^verbatim>\<open>l / b\<close> with \<open>b\<close> a \<^verbatim>\<open>size_t\<close>; \<open>flt_accuracy e n\<close> is
    \<^verbatim>\<open>1.0f - (float) e / n\<close>; \<open>flt_negative a\<close> is \<^verbatim>\<open>a < 0\<close>; \<open>flt_greater a b\<close> is
    \<^verbatim>\<open>a > b\<close>; \<open>flt_percent a\<close> is \<^verbatim>\<open>a * 100\<close>.
\<close>

record ('d, 's, 'm, 'f, 'b) collaborators =
  getConfig :: "'d \<Rightarrow> 'f Config"
  feedForward_to :: "'d \<Rightarrow> 'm \<Rightarrow> 'm \<Rightarrow> 'd \<times> 'm"
  feedForward :: "'d \<Rightarrow> 'm \<Rightarrow> 'm"
  backPropagate :: "'d \<Rightarrow> 'm \<Rightarrow> 'm \<Rightarrow> 'm \<Rightarrow> 'f \<Rightarrow> 'd"
  adjustLearningRate :: "'d \<Rightarrow> 'f \<Rightarrow> 'd"
  getError :: "'m \<Rightarrow> 'm \<Rightarrow> ERROR_MEASURE \<Rightarrow> 'm"
  zeroOneError :: "'m \<Rightarrow> 'm \<Rightarrow> ERROR_MEASURE \<Rightarrow> size_t"
  data_size :: "'s \<Rightarrow> size_t"
  data_batch :: "'s \<Rightarrow> 'b \<Rightarrow> 'm \<times> 'm"
  Batches :: "size_t \<Rightarrow> size_t \<Rightarrow> 'b list"
  mat_default :: "'m"
  flt_div :: "'f \<Rightarrow> size_t \<Rightarrow> 'f"
  flt_accuracy :: "size_t \<Rightarrow> size_t \<Rightarrow> 'f"
  flt_negative :: "'f \<Rightarrow> bool"
  flt_greater :: "'f \<Rightarrow> 'f \<Rightarrow> bool"
  flt_percent :: "'f \<Rightarrow> 'f"

text \<open>The variables of \<^verbatim>\<open>dnn_train\<close> that the epoch loop changes, and the output so far.\<close>

record ('d, 's, 'm, 'f) train_state =
  dnn :: 'd
  fout :: 'm
  Ein :: size_t
  Eout :: "size_t list"
  trace :: "('d, 's, 'm, 'f) event list"

text \<open>The parameters and variables of \<^verbatim>\<open>dnn_train\<close> that are set once, before the loop.\<close>

record ('s, 'f) train_locals =
  train :: 's
  valid :: 's
  batchSize :: size_t
  errorMeasure :: ERROR_MEASURE
  MAX_EPOCH :: size_t
  lr :: 'f
  nTrain :: size_t
  nValid :: size_t

text \<open>
  Undefined behaviour of the program is a value: a read of \<^verbatim>\<open>Eout[epoch]\<close> in
  \<^verbatim>\<open>dnn_train\<close> outside the vector, a read outside the vector in
  \<^verbatim>\<open>isEoutStopDecrease\<close>, and \<^verbatim>\<open>Eout.back()\<close> on an empty vector.
\<close>

datatype fault = Eout_out_of_range | Policy_out_of_range | Back_of_empty

text \<open>How one pass of the body of the epoch loop ends, and how the loop ends.\<close>

datatype flow = Continue | Break

datatype loop_exit = Exit_break | Exit_bound

section \<open>The training controller\<close>

text \<open>
  The inner loop of \<^verbatim>\<open>dnn_train\<close>, over the batches of one epoch:
  \<^verbatim>\<open>
  auto data = train[itr];
  dnn.feedForward(fout, data.x);
  mat error = getError( data.y, fout, errorMeasure);
  dnn.backPropagate(error, data.x, fout, lr);
  \<close>
\<close>

fun train_batches ::
  "('d, 's, 'm, 'f, 'b) collaborators \<Rightarrow> ('s, 'f) train_locals \<Rightarrow>
   ('d, 's, 'm, 'f) train_state \<Rightarrow> 'b list \<Rightarrow> ('d, 's, 'm, 'f) train_state" where
  "train_batches C L st [] = st"
| "train_batches C L st (itr # rest) =
     (let (x, y) = data_batch C (train L) itr;
          (d1, fout1) = feedForward_to C (dnn st) (fout st) x;
          error = getError C y fout1 (errorMeasure L);
          d2 = backPropagate C d1 error x fout1 (lr L)
      in train_batches C L
           (st\<lparr>dnn := d2, fout := fout1,
               trace := trace st @ [Call_backPropagate error x fout1 (lr L)]\<rparr>) rest)"

text \<open>
  \<^verbatim>\<open>
  size_t dnn_predict(const DNN& dnn, DataSet& data, ERROR_MEASURE errorMeasure) {
    size_t nError = 0;
    Batches batches(2048, data.size());
    for (Batches::iterator itr = batches.begin(); itr != batches.end(); ++itr) {
      auto d = data[itr];
      mat prob = dnn.feedForward(d.x);
      nError += zeroOneError(prob, d.y, errorMeasure);
    }
    return nError;
  }
  \<close>
\<close>

definition dnn_predict ::
  "('d, 's, 'm, 'f, 'b) collaborators \<Rightarrow> 'd \<Rightarrow> 's \<Rightarrow> ERROR_MEASURE \<Rightarrow> size_t" where
  "dnn_predict C d data em =
     foldl (\<lambda>nError itr.
              let (x, y) = data_batch C data itr;
                  prob = feedForward C d x
              in nError + zeroOneError C prob y em)
           0 (Batches C 2048 (data_size C data))"

text \<open>
  The part of the body that follows the row: the stopping check and the adjustment of
  the learning rate.
  \<^verbatim>\<open>
  if (validAcc > dnn.getConfig().minValidAccuracy
      && isEoutStopDecrease(Eout, epoch, dnn.getConfig().nNonIncEpoch))
    break;
  dnn.adjustLearningRate(trainAcc);
  \<close>
  The policy is called only when the first conjunct holds.
\<close>

definition adjust_step ::
  "('d, 's, 'm, 'f, 'b) collaborators \<Rightarrow> ('d, 's, 'm, 'f) train_state \<Rightarrow> 'f \<Rightarrow>
   ('d, 's, 'm, 'f) train_state" where
  "adjust_step C st trainAcc =
     st\<lparr>dnn := adjustLearningRate C (dnn st) trainAcc,
        trace := trace st @ [Call_adjustLearningRate trainAcc]\<rparr>"

definition stop_check ::
  "('d, 's, 'm, 'f, 'b) collaborators \<Rightarrow> ('d, 's, 'm, 'f) train_state \<Rightarrow> size_t \<Rightarrow>
   'f \<Rightarrow> 'f \<Rightarrow> fault + (('d, 's, 'm, 'f) train_state \<times> flow)" where
  "stop_check C st epoch trainAcc validAcc =
     (if flt_greater C validAcc (minValidAccuracy (getConfig C (dnn st))) then
        (let n = nNonIncEpoch (getConfig C (dnn st));
             st' = st\<lparr>trace := trace st @ [Call_isEoutStopDecrease (Eout st) epoch n]\<rparr>
         in case isEoutStopDecrease (Eout st) epoch n of
              None \<Rightarrow> Inl Policy_out_of_range
            | Some True \<Rightarrow> Inr (st', Break)
            | Some False \<Rightarrow> Inr (adjust_step C st' trainAcc, Continue))
      else Inr (adjust_step C st trainAcc, Continue))"

text \<open>
  The body of the epoch loop, lines 147 to 178 of the program:
  \<^verbatim>\<open>
  Ein = dnn_predict(dnn, train, errorMeasure);
  Eout.push_back(dnn_predict(dnn, valid, errorMeasure));
  float trainAcc = 1.0f - (float) Ein / nTrain;
  if (trainAcc < 0) {
    cout << "."; cout.flush();
    continue;
  }
  float validAcc = 1.0f - (float) Eout[epoch] / nValid;
  printf("|%4lu   |  %.2f %% |  %7lu     |  %.2f %% |  %7lu     |\n",
    epoch, trainAcc * 100, nTrain - Ein, validAcc * 100, nValid - Eout[epoch]);
  \<close>
\<close>

definition epoch_body ::
  "('d, 's, 'm, 'f, 'b) collaborators \<Rightarrow> ('s, 'f) train_locals \<Rightarrow>
   ('d, 's, 'm, 'f) train_state \<Rightarrow> size_t \<Rightarrow>
   fault + (('d, 's, 'm, 'f) train_state \<times> flow)" where
  "epoch_body C L st epoch =
     (let st1 = train_batches C L st (Batches C (batchSize L) (nTrain L));
          Ein' = dnn_predict C (dnn st1) (train L) (errorMeasure L);
          Eout' = Eout st1 @ [dnn_predict C (dnn st1) (valid L) (errorMeasure L)];
          st2 = st1\<lparr>Ein := Ein', Eout := Eout'\<rparr>;
          trainAcc = flt_accuracy C Ein' (nTrain L)
      in if flt_negative C trainAcc then
           Inr (st2\<lparr>trace := trace st2 @ [Print_dot]\<rparr>, Continue)
         else
           (case vec_at Eout' epoch of
              None \<Rightarrow> Inl Eout_out_of_range
            | Some e \<Rightarrow>
                (let validAcc = flt_accuracy C e (nValid L);
                     st3 = st2\<lparr>trace := trace st2 @
                             [Print_row epoch (flt_percent C trainAcc) (nTrain L - Ein')
                                (flt_percent C validAcc) (nValid L - e)]\<rparr>
                 in stop_check C st3 epoch trainAcc validAcc)))"

text \<open>
  \<^verbatim>\<open>for (epoch=0; epoch<MAX_EPOCH; ++epoch)\<close>, from the value \<open>epoch\<close> on. The result
  holds the state, the value of \<^verbatim>\<open>epoch\<close> after the loop and the way the loop ended.
\<close>

function epoch_loop ::
  "('d, 's, 'm, 'f, 'b) collaborators \<Rightarrow> ('s, 'f) train_locals \<Rightarrow>
   ('d, 's, 'm, 'f) train_state \<Rightarrow> size_t \<Rightarrow>
   fault + (('d, 's, 'm, 'f) train_state \<times> size_t \<times> loop_exit)" where
  "epoch_loop C L st epoch =
     (if epoch < MAX_EPOCH L then
        (case epoch_body C L st epoch of
           Inl f \<Rightarrow> Inl f
         | Inr (st', Break) \<Rightarrow> Inr (st', epoch, Exit_break)
         | Inr (st', Continue) \<Rightarrow> epoch_loop C L st' (epoch + 1))
      else Inr (st, epoch, Exit_bound))"
  by pat_completeness auto

termination epoch_loop
  by (relation "measure (\<lambda>(C, L, st, epoch). unat (MAX_EPOCH L) - unat epoch)")
     (simp_all add: size_t_succ_measure)

declare epoch_loop.simps [simp del]

text \<open>
  \<^verbatim>\<open>dnn_train\<close>: the variables before the loop, the loop, and the summary after it.
  The vector \<^verbatim>\<open>O\<close> of the program is never used, and the timer only prints.
  \<^verbatim>\<open>
  size_t Ein = 1;
  size_t MAX_EPOCH = dnn.getConfig().maxEpoch, epoch;
  std::vector<size_t> Eout;
  float lr = dnn.getConfig().learningRate / batchSize;
  size_t nTrain = train.size(), nValid = valid.size();
  mat fout;
  \<close>
\<close>

definition train_init_locals ::
  "('d, 's, 'm, 'f, 'b) collaborators \<Rightarrow> 'd \<Rightarrow> 's \<Rightarrow> 's \<Rightarrow> size_t \<Rightarrow> ERROR_MEASURE \<Rightarrow>
   ('s, 'f) train_locals" where
  "train_init_locals C d tr va bs em =
     \<lparr>train = tr, valid = va, batchSize = bs, errorMeasure = em,
      MAX_EPOCH = maxEpoch (getConfig C d),
      lr = flt_div C (learningRate (getConfig C d)) bs,
      nTrain = data_size C tr, nValid = data_size C va\<rparr>"

definition train_init_state ::
  "('d, 's, 'm, 'f, 'b) collaborators \<Rightarrow> 'd \<Rightarrow> ('d, 's, 'm, 'f) train_state" where
  "train_init_state C d =
     \<lparr>dnn = d, fout = mat_default C, Ein = 1, Eout = [],
      trace = [Print_Training, Timer_start, Print_table_header]\<rparr>"

text \<open>
  \<^verbatim>\<open>
  printf("\n%ld epochs in total\n", epoch);
  timer.elapsed();
  printf("[   In-Sample   ] ");
  showAccuracy(Ein, train.size());
  printf("[ Out-of-Sample ] ");
  showAccuracy(Eout.back(), valid.size());
  \<close>
\<close>

definition train_summary ::
  "('d, 's, 'm, 'f, 'b) collaborators \<Rightarrow> ('s, 'f) train_locals \<Rightarrow>
   ('d, 's, 'm, 'f) train_state \<Rightarrow> size_t \<Rightarrow> fault + ('d, 's, 'm, 'f) train_state" where
  "train_summary C L st epoch =
     (if Eout st = [] then Inl Back_of_empty
      else Inr (st\<lparr>trace := trace st @
                  [Print_epochs_total epoch, Timer_elapsed,
                   Print_In_Sample, Call_showAccuracy (Ein st) (data_size C (train L)),
                   Print_Out_of_Sample,
                   Call_showAccuracy (last (Eout st)) (data_size C (valid L))]\<rparr>))"

definition dnn_train ::
  "('d, 's, 'm, 'f, 'b) collaborators \<Rightarrow> 'd \<Rightarrow> 's \<Rightarrow> 's \<Rightarrow> size_t \<Rightarrow> ERROR_MEASURE \<Rightarrow>
   fault + (('d, 's, 'm, 'f) train_state \<times> size_t \<times> loop_exit)" where
  "dnn_train C d tr va bs em =
     (let L = train_init_locals C d tr va bs em in
      case epoch_loop C L (train_init_state C d) 0 of
        Inl f \<Rightarrow> Inl f
      | Inr (st, epoch, ex) \<Rightarrow>
          (case train_summary C L st epoch of
             Inl f \<Rightarrow> Inl f
           | Inr st' \<Rightarrow> Inr (st', epoch, ex)))"

section \<open>The entry point\<close>

text \<open>
  The command line as \<^verbatim>\<open>CmdParser\<close> holds it: the three positional arguments
  \<^verbatim>\<open>cmd[1]\<close>, \<^verbatim>\<open>cmd[2]\<close>, \<^verbatim>\<open>cmd[3]\<close> and the text of every option that \<^verbatim>\<open>main\<close>
  registers with \<^verbatim>\<open>cmd.add\<close>.
\<close>

record cmdline =
  arg_training_set_file :: string
  arg_model_in :: string
  arg_model_out :: string
  opt_input_dim :: string
  opt_normalize :: string
  opt_nf :: string
  opt_base :: string
  opt_v :: string
  opt_max_epoch :: string
  opt_min_acc :: string
  opt_learning_rate :: string
  opt_variance :: string
  opt_batch_size :: string
  opt_type :: string
  opt_cache :: string

type_synonym c_int = "32 word"

text \<open>
  The collaborators of \<^verbatim>\<open>main\<close>, none of them in the sources: the check and the
  conversions of the command-line parser, the default constructor of \<^verbatim>\<open>Config\<close>, the
  constructor of the network from a file and \<^verbatim>\<open>setConfig\<close>, the constructor of the data
  set from a file, \<^verbatim>\<open>setNormType\<close> and \<^verbatim>\<open>DataSet::split\<close>.
\<close>

record ('d, 's, 'f) main_collaborators =
  isOptionLegal :: "cmdline \<Rightarrow> bool"
  to_size_t :: "string \<Rightarrow> size_t"
  to_int :: "string \<Rightarrow> c_int"
  to_float :: "string \<Rightarrow> 'f"
  Config_default :: "'f Config"
  DNN_load :: "string \<Rightarrow> 'd"
  setConfig :: "'d \<Rightarrow> 'f Config \<Rightarrow> 'd"
  DataSet_load :: "string \<Rightarrow> size_t \<Rightarrow> c_int \<Rightarrow> 's"
  setNormType :: "'s \<Rightarrow> c_int \<Rightarrow> 's"
  DataSet_split :: "'s \<Rightarrow> c_int \<Rightarrow> 's \<times> 's"

text \<open>
  \<^verbatim>\<open>
  Config config;
  config.variance = variance;
  config.learningRate = learningRate;
  config.minValidAccuracy = minValidAcc;
  config.maxEpoch = maxEpoch;
  \<close>
  with \<^verbatim>\<open>variance = cmd["--variance"]\<close>, \<^verbatim>\<open>learningRate = cmd["--learning-rate"]\<close>,
  \<^verbatim>\<open>minValidAcc = cmd["--min-acc"]\<close> and \<^verbatim>\<open>maxEpoch = cmd["--max-epoch"]\<close>.
\<close>

definition main_config :: "('d, 's, 'f) main_collaborators \<Rightarrow> cmdline \<Rightarrow> 'f Config" where
  "main_config M cmd =
     (Config_default M)
       \<lparr>variance := to_float M (opt_variance cmd),
        learningRate := to_float M (opt_learning_rate cmd),
        minValidAccuracy := to_float M (opt_min_acc cmd),
        maxEpoch := to_size_t M (opt_max_epoch cmd)\<rparr>"

text \<open>
  \<^verbatim>\<open>
  DataSet data(train_fn, input_dim, base);
  // data.loadPrecomputedStatistics(n_filename);
  data.setNormType(n_type);
  \<close>
  The variable \<^verbatim>\<open>n_filename\<close> is read from \<^verbatim>\<open>cmd["--nf"]\<close> and has no other occurrence
  than the one in the comment.
\<close>

definition main_data :: "('d, 's, 'f) main_collaborators \<Rightarrow> cmdline \<Rightarrow> 's" where
  "main_data M cmd =
     (let train_fn = arg_training_set_file cmd;
          input_dim = to_size_t M (opt_input_dim cmd);
          n_type = to_int M (opt_normalize cmd);
          n_filename = opt_nf cmd;
          base = to_int M (opt_base cmd)
      in setNormType M (DataSet_load M train_fn input_dim base) n_type)"

text \<open>
  The arguments of the call \<^verbatim>\<open>dnn_train(dnn, train, valid, batchSize, err)\<close> in
  \<^verbatim>\<open>main\<close>:
  \<^verbatim>\<open>
  DNN dnn(model_in);
  dnn.setConfig(config);
  DataSet train, valid;
  DataSet::split(data, train, valid, ratio);
  ERROR_MEASURE err = CROSS_ENTROPY;
  \<close>
\<close>

record ('d, 's) train_call =
  call_dnn :: 'd
  call_train :: 's
  call_valid :: 's
  call_batchSize :: size_t
  call_errorMeasure :: ERROR_MEASURE

definition main_train_call ::
  "('d, 's, 'f) main_collaborators \<Rightarrow> cmdline \<Rightarrow> ('d, 's) train_call" where
  "main_train_call M cmd =
     (let model_in = arg_model_in cmd;
          ratio = to_int M (opt_v cmd);
          batchSize = to_size_t M (opt_batch_size cmd);
          dnn0 = setConfig M (DNN_load M model_in) (main_config M cmd);
          (train0, valid0) = DataSet_split M (main_data M cmd) ratio;
          err = CROSS_ENTROPY
      in \<lparr>call_dnn = dnn0, call_train = train0, call_valid = valid0,
          call_batchSize = batchSize, call_errorMeasure = err\<rparr>)"

text \<open>
  \<^verbatim>\<open>train_fn.substr(train_fn.find_last_of('/') + 1) + ".model"\<close>:
  \<^verbatim>\<open>find_last_of\<close> is \<^verbatim>\<open>npos\<close>, the largest \<^verbatim>\<open>size_t\<close>, when the character does not
  occur, and \<^verbatim>\<open>substr\<close> throws when the position is beyond the end of the string.
\<close>

definition find_last_of :: "string \<Rightarrow> char \<Rightarrow> size_t" where
  "find_last_of s c =
     (case filter (\<lambda>k. s ! k = c) (rev [0..<length s]) of
        [] \<Rightarrow> - 1
      | k # ks \<Rightarrow> of_nat k)"

definition substr :: "string \<Rightarrow> size_t \<Rightarrow> string option" where
  "substr s pos = (if unat pos \<le> length s then Some (drop (unat pos) s) else None)"

definition main_model_out :: "cmdline \<Rightarrow> string option" where
  "main_model_out cmd =
     (let train_fn = arg_training_set_file cmd;
          model_out = arg_model_out cmd
      in if model_out = [] then
           map_option (\<lambda>b. b @ ''.model'') (substr train_fn (find_last_of train_fn CHR ''/'' + 1))
         else Some model_out)"

text \<open>
  \<^verbatim>\<open>main\<close>: the usage exit, undefined behaviour inside \<^verbatim>\<open>dnn_train\<close>, an exception of
  \<^verbatim>\<open>substr\<close>, or the return value with everything printed and saved on the way.
\<close>

datatype ('d, 's, 'm, 'f) main_result =
    Usage_and_exit
  | Main_fault fault
  | Main_out_of_range
  | Main_return c_int "('d, 's, 'm, 'f) event list"

definition main ::
  "('d, 's, 'm, 'f, 'b) collaborators \<Rightarrow> ('d, 's, 'f) main_collaborators \<Rightarrow> cmdline \<Rightarrow>
   ('d, 's, 'm, 'f) main_result" where
  "main C M cmd =
     (if \<not> isOptionLegal M cmd then Usage_and_exit
      else
        (let cache_size = to_size_t M (opt_cache cmd);
             config = main_config M cmd;
             data = main_data M cmd;
             a = main_train_call M cmd
         in case dnn_train C (call_dnn a) (call_train a) (call_valid a)
                   (call_batchSize a) (call_errorMeasure a) of
              Inl f \<Rightarrow> Main_fault f
            | Inr (st, epoch, ex) \<Rightarrow>
                (case main_model_out cmd of
                   None \<Rightarrow> Main_out_of_range
                 | Some out \<Rightarrow>
                     Main_return 0
                       ([Call_setCacheSize cache_size, Call_showSummary data,
                         Call_Config_print config]
                        @ trace st @ [Call_save (dnn st) out]))))"

section \<open>Notions used in the statements\<close>

text \<open>
  The contract of the stopping policy in the words of the spec, on unbounded integers:
  for every offset \<open>i\<close> in \<open>[0, nNonIncEpoch)\<close> such that \<open>epoch - i > 0\<close>,
  \<open>Eout[epoch] \<le> Eout[epoch - i]\<close>.
\<close>

definition spec_window_no_worse :: "size_t list \<Rightarrow> nat \<Rightarrow> nat \<Rightarrow> bool" where
  "spec_window_no_worse E epoch n =
     list_all (\<lambda>i. E ! epoch \<le> E ! (epoch - i))
       (filter (\<lambda>i. 0 < int epoch - int i) [0..<n])"

text \<open>The learning rates of the calls of \<^verbatim>\<open>backPropagate\<close> in a trace, in order.\<close>

fun backPropagate_rates :: "('d, 's, 'm, 'f) event list \<Rightarrow> 'f list" where
  "backPropagate_rates [] = []"
| "backPropagate_rates (Call_backPropagate a b c r # es) = r # backPropagate_rates es"
| "backPropagate_rates (e # es) = backPropagate_rates es"

text \<open>
  The events of an epoch that reaches the row: the row, the call of the stopping policy
  and the call of \<^verbatim>\<open>adjustLearningRate\<close>.
\<close>

fun is_report :: "('d, 's, 'm, 'f) event \<Rightarrow> bool" where
  "is_report (Print_row e a c b d) = True"
| "is_report (Call_isEoutStopDecrease h e n) = True"
| "is_report (Call_adjustLearningRate a) = True"
| "is_report e = False"

text \<open>
  The states in which a run of \<^verbatim>\<open>dnn_train\<close> tests the loop condition, with the value
  of \<^verbatim>\<open>epoch\<close> there: the state before the loop with 0, and the state after a pass of
  the body that did not break, with the next value.
\<close>

inductive loop_head ::
  "('d, 's, 'm, 'f, 'b) collaborators \<Rightarrow> 'd \<Rightarrow> ('s, 'f) train_locals \<Rightarrow>
   ('d, 's, 'm, 'f) train_state \<Rightarrow> size_t \<Rightarrow> bool"
  for C :: "('d, 's, 'm, 'f, 'b) collaborators" and d :: 'd and L :: "('s, 'f) train_locals" where
  loop_head_init: "loop_head C d L (train_init_state C d) 0"
| loop_head_step:
    "loop_head C d L st epoch \<Longrightarrow> epoch < MAX_EPOCH L \<Longrightarrow>
     epoch_body C L st epoch = Inr (st', Continue) \<Longrightarrow>
     loop_head C d L st' (epoch + 1)"

section \<open>A small instance of the collaborators\<close>

text \<open>
  A network that counts its updates and holds its configuration, two data sets of ten
  rows each (\<open>True\<close> the training set, \<open>False\<close> the validation set), one batch per data
  set, integers in the place of \<^verbatim>\<open>float\<close>, and error counts read from a table: after
  \<open>k\<close> updates the training set has \<open>table ! (2 * k)\<close> errors and the validation set
  \<open>table ! (2 * k + 1)\<close>. Adjusting the learning rate halves the configured rate.
\<close>

definition toy_errors :: "size_t list \<Rightarrow> nat \<Rightarrow> size_t" where
  "toy_errors table k = (if k < length table then table ! k else 0)"

definition toy ::
  "size_t list \<Rightarrow> (nat \<times> int Config, bool, nat, int, nat) collaborators" where
  "toy table =
     \<lparr>getConfig = snd,
      feedForward_to = (\<lambda>d fout x. (d, 2 * fst d + x)),
      feedForward = (\<lambda>d x. 2 * fst d + x),
      backPropagate = (\<lambda>d error x fout r. (Suc (fst d), snd d)),
      adjustLearningRate =
        (\<lambda>d acc. (fst d, (snd d)\<lparr>learningRate := learningRate (snd d) div 2\<rparr>)),
      getError = (\<lambda>y fout em. 0),
      zeroOneError = (\<lambda>prob y em. toy_errors table prob),
      data_size = (\<lambda>s. 10),
      data_batch = (\<lambda>s b. (if s then 0 else 1, 0)),
      Batches = (\<lambda>bs total. if total = 0 then [] else [0]),
      mat_default = 0,
      flt_div = (\<lambda>l b. l div uint b),
      flt_accuracy = (\<lambda>e n. 100 - (100 * uint e) div uint n),
      flt_negative = (\<lambda>a. a < 0),
      flt_greater = (\<lambda>a b. a > b),
      flt_percent = (\<lambda>a. a * 100)\<rparr>"

definition toy_config :: "size_t \<Rightarrow> size_t \<Rightarrow> int Config" where
  "toy_config m n =
     \<lparr>variance = 1, learningRate = 64, minValidAccuracy = 50, maxEpoch = m,
      nNonIncEpoch = n\<rparr>"

text \<open>A command-line parser that reads decimal numbers, and a default patience of 6.\<close>

definition toy_decimal :: "string \<Rightarrow> nat" where
  "toy_decimal s = foldl (\<lambda>n c. 10 * n + (of_char c - 48)) 0 s"

definition toy_main :: "(nat \<times> int Config, bool, int) main_collaborators" where
  "toy_main =
     \<lparr>isOptionLegal = (\<lambda>c. arg_training_set_file c \<noteq> [] \<and> arg_model_in c \<noteq> []),
      to_size_t = (\<lambda>s. of_nat (toy_decimal s)),
      to_int = (\<lambda>s. of_nat (toy_decimal s)),
      to_float = (\<lambda>s. int (toy_decimal s)),
      Config_default = toy_config 100000 6,
      DNN_load = (\<lambda>f. (0, toy_config 0 0)),
      setConfig = (\<lambda>d c. (fst d, c)),
      DataSet_load = (\<lambda>f dim base. True),
      setNormType = (\<lambda>s t. s),
      DataSet_split = (\<lambda>s r. (True, False))\<rparr>"

definition toy_cmd :: cmdline where
  "toy_cmd =
     \<lparr>arg_training_set_file = ''data/train.dat'', arg_model_in = ''train.dat.model.in'',
      arg_model_out = [],
      opt_input_dim = ''20'', opt_normalize = ''0'', opt_nf = [], opt_base = ''1'',
      opt_v = ''5'', opt_max_epoch = ''2'', opt_min_acc = ''50'',
      opt_learning_rate = ''64'', opt_variance = ''1'', opt_batch_size = ''32'',
      opt_type = ''1'', opt_cache = ''16''\<rparr>"

text \<open>
  A network that keeps, beside the network of given collaborators, the list of the
  learning rates that \<^verbatim>\<open>backPropagate\<close> was called with.
\<close>

definition recording ::
  "('d, 's, 'm, 'f, 'b) collaborators \<Rightarrow> ('d \<times> 'f list, 's, 'm, 'f, 'b) collaborators" where
  "recording C =
     \<lparr>getConfig = (\<lambda>d. getConfig C (fst d)),
      feedForward_to = (\<lambda>d fout x. ((fst (feedForward_to C (fst d) fout x), snd d),
                                      snd (feedForward_to C (fst d) fout x))),
      feedForward = (\<lambda>d x. feedForward C (fst d) x),
      backPropagate = (\<lambda>d error x fout r. (backPropagate C (fst d) error x fout r, snd d @ [r])),
      adjustLearningRate = (\<lambda>d acc. (adjustLearningRate C (fst d) acc, snd d)),
      getError = getError C,
      zeroOneError = zeroOneError C,
      data_size = data_size C,
      data_batch = data_batch C,
      Batches = Batches C,
      mat_default = mat_default C,
      flt_div = flt_div C,
      flt_accuracy = flt_accuracy C,
      flt_negative = flt_negative C,
      flt_greater = flt_greater C,
      flt_percent = flt_percent C\<rparr>"

section \<open>Arithmetic on \<^verbatim>\<open>size_t\<close>\<close>

lemma size_t_sub_unat:
  fixes epoch i :: size_t
  assumes "unat i \<le> unat epoch"
  shows "unat (epoch - i) = unat epoch - unat i"
  using assms by (simp add: unat_sub word_le_nat_alt)

lemma size_t_sub_pos:
  fixes epoch i :: size_t
  shows "(0 < epoch - i) = (epoch \<noteq> i)"
  by (simp add: word_greater_zero_iff)

lemma size_t_minus_one_unat: "unat (- 1 :: size_t) = 2 ^ 64 - 1"
  by (simp add: unsigned_minus_1_eq_mask mask_eq_exp_minus_1)

lemma size_t_underflow:
  fixes epoch i :: size_t
  assumes "unat i = Suc (unat epoch)"
  shows "epoch - i = - 1"
proof -
  have "i = of_nat (unat i)" by simp
  also have "\<dots> = of_nat (Suc (unat epoch))" by (simp only: assms)
  also have "\<dots> = epoch + 1" by simp
  finally show ?thesis by simp
qed

section \<open>What the stopping policy computes\<close>

lemma spec_window_no_worse_iff:
  "spec_window_no_worse E e m = (\<forall>k. 0 \<le> k \<and> k < m \<and> k < e \<longrightarrow> E ! e \<le> E ! (e - k))"
  by (auto simp: spec_window_no_worse_def list_all_iff)

text \<open>
  The loop from the counter \<open>i\<close> on, for a counter that has not yet passed
  \<open>epoch + 1\<close>: it returns false when a compared earlier epoch has a smaller count;
  otherwise it returns true when the window ends at or before \<open>epoch + 1\<close>, and reads
  \<^verbatim>\<open>Eout[SIZE_MAX]\<close> when the window is longer, since \<open>epoch - (epoch + 1)\<close> wraps around.
\<close>

lemma isEoutStopDecrease_from_result:
  assumes "unat epoch < length E" and "length E < 2 ^ 64" and "unat i \<le> Suc (unat epoch)"
  shows "isEoutStopDecrease_from E epoch n i =
           (if \<not> (\<forall>k. unat i \<le> k \<and> k < unat n \<and> k < unat epoch \<longrightarrow>
                      E ! unat epoch \<le> E ! (unat epoch - k)) then Some False
            else if unat n \<le> Suc (unat epoch) then Some True else None)"
  using assms
proof (induction E epoch n i rule: isEoutStopDecrease_from.induct)
  case (1 E epoch n i)
  let ?P = "\<lambda>k. E ! unat epoch \<le> E ! (unat epoch - k)"
  let ?Q = "\<lambda>a. \<forall>k. a \<le> k \<and> k < unat n \<and> k < unat epoch \<longrightarrow> ?P k"
  let ?R = "\<lambda>a. if \<not> ?Q a then Some False
                 else if unat n \<le> Suc (unat epoch) then Some True else None"
  have a: "vec_at E epoch = Some (E ! unat epoch)"
    using "1.prems" by (simp add: vec_at_def)
  show ?case
  proof (cases "i < n")
    case False
    then have ni: "\<not> unat i < unat n" by (simp add: word_less_nat_alt)
    then have "?Q (unat i)" by auto
    moreover have "unat n \<le> Suc (unat epoch)" using ni "1.prems" by simp
    ultimately show ?thesis using False
      by (subst isEoutStopDecrease_from.simps) simp
  next
    case True
    then have in': "unat i < unat n" by (simp add: word_less_nat_alt)
    have suc: "unat (i + 1) = Suc (unat i)" by (rule size_t_succ_unat [OF True])
    show ?thesis
    proof (cases "unat i = Suc (unat epoch)")
      case over: True
      then have m1: "epoch - i = - 1" by (rule size_t_underflow)
      have "?Q (unat i)" using over by auto
      moreover have "\<not> unat n \<le> Suc (unat epoch)" using in' over by simp
      moreover have "vec_at E (- 1) = None"
        using "1.prems" by (simp add: vec_at_def size_t_minus_one_unat)
      ultimately show ?thesis using True a m1
        by (subst isEoutStopDecrease_from.simps) (simp add: word_greater_zero_iff)
    next
      case False
      with "1.prems" have ie: "unat i \<le> unat epoch" by simp
      then have next_ok: "unat (i + 1) \<le> Suc (unat epoch)" using suc by simp
      have split: "?Q (unat i) = ((unat i < unat epoch \<longrightarrow> ?P (unat i)) \<and> ?Q (Suc (unat i)))"
        using in' by (metis Suc_leI le_neq_implies_less order_refl Suc_leD)
      have sub: "unat (epoch - i) = unat epoch - unat i" by (rule size_t_sub_unat [OF ie])
      show ?thesis
      proof (cases "0 < epoch - i")
        case False
        then have "epoch = i" by (simp add: size_t_sub_pos)
        then have same: "?Q (Suc (unat i)) = ?Q (unat i)" using split by simp
        have "isEoutStopDecrease_from E epoch n i = isEoutStopDecrease_from E epoch n (i + 1)"
          using True False by (subst isEoutStopDecrease_from.simps) simp
        also have "\<dots> = ?R (unat (i + 1))"
          using "1.IH"(2) [OF True False "1.prems"(1,2) next_ok] .
        finally show ?thesis using same by (simp only: suc)
      next
        case pos: True
        then have "epoch \<noteq> i" by (simp add: size_t_sub_pos)
        with ie have lt: "unat i < unat epoch" by (simp add: word_unat_eq_iff)
        have b: "vec_at E (epoch - i) = Some (E ! (unat epoch - unat i))"
          using "1.prems" sub by (simp add: vec_at_def)
        show ?thesis
        proof (cases "E ! unat epoch > E ! (unat epoch - unat i)")
          case worse: True
          then have "\<not> ?P (unat i)" by simp
          then have "\<not> ?Q (unat i)" using split lt by blast
          moreover have "isEoutStopDecrease_from E epoch n i = Some False"
            using True pos a b worse by (subst isEoutStopDecrease_from.simps) simp
          ultimately show ?thesis by simp
        next
          case False
          then have "?P (unat i)" by simp
          then have same: "?Q (Suc (unat i)) = ?Q (unat i)" using split by simp
          have "isEoutStopDecrease_from E epoch n i = isEoutStopDecrease_from E epoch n (i + 1)"
            using True pos a b False by (subst isEoutStopDecrease_from.simps) simp
          also have "\<dots> = ?R (unat (i + 1))"
            using "1.IH"(1) [OF True pos a b False "1.prems"(1,2) next_ok] .
          finally show ?thesis using same by (simp only: suc)
        qed
      qed
    qed
  qed
qed

text \<open>
  The whole function, for an epoch inside the history: with a window of at most
  \<open>epoch + 1\<close> offsets it returns the truth value of the contract; with a longer window it
  returns false or reads outside the vector, and never returns true.
\<close>

lemma isEoutStopDecrease_result:
  assumes "unat epoch < length E" and "length E < 2 ^ 64"
  shows "isEoutStopDecrease E epoch n =
           (if \<not> spec_window_no_worse E (unat epoch) (unat n) then Some False
            else if unat n \<le> Suc (unat epoch) then Some True else None)"
  using isEoutStopDecrease_from_result [OF assms, of 0 n]
  by (simp add: isEoutStopDecrease_def spec_window_no_worse_iff)

text \<open>
  C1: for an epoch inside the history, \<^verbatim>\<open>isEoutStopDecrease\<close> is claimed to return true
  exactly when the count of the current epoch is no larger than the count of each
  compared earlier epoch of the window. For the history 3, 2, the epoch 1 and a window of
  3 the condition holds, since the only offset with \<open>epoch - i > 0\<close> is 0; the function
  does not return true there: at the offset 2 it reads outside the vector.
\<close>

theorem isEoutStopDecrease_contract_fails:
  "unat (1 :: size_t) < length [3, 2 :: size_t] \<and>
   spec_window_no_worse [3, 2] 1 3 \<and>
   isEoutStopDecrease [3, 2] 1 3 = None"
  by (simp add: spec_window_no_worse_def upt_rec isEoutStopDecrease_def
      isEoutStopDecrease_from.simps vec_at_def size_t_minus_one_unat word_greater_zero_iff)

text \<open>
  C2: the index \<open>epoch - i\<close> is claimed never to underflow and every read of the history to
  be inside it. For a history of one count, the epoch 0 and a window of 2, the offset 1
  passes the guard \<^verbatim>\<open>epoch - i > 0\<close> because \<open>0 - 1\<close> wraps around to \<open>2 ^ 64 - 1\<close>, and
  the read at that index is outside the vector.
\<close>

theorem isEoutStopDecrease_index_underflows:
  "unat (0 :: size_t) < length [5 :: size_t] \<and>
   (0 :: size_t) < 0 - 1 \<and>
   unat (0 - 1 :: size_t) = 2 ^ 64 - 1 \<and>
   vec_at [5] (0 - 1) = None \<and>
   isEoutStopDecrease_from [5] 0 2 1 = None \<and>
   isEoutStopDecrease [5] 0 2 = None"
  by (simp add: isEoutStopDecrease_def isEoutStopDecrease_from.simps vec_at_def
      size_t_minus_one_unat word_greater_zero_iff)

text \<open>
  C3: at epoch 0 the policy is claimed to return true for every window. With the window
  of 6 and a history of one count it reads outside the vector; it returns true for the
  windows 0 and 1.
\<close>

theorem isEoutStopDecrease_epoch_0:
  "isEoutStopDecrease [7] 0 6 = None \<and>
   isEoutStopDecrease [7] 0 1 = Some True \<and>
   isEoutStopDecrease [7] 0 0 = Some True"
  by (simp add: isEoutStopDecrease_def isEoutStopDecrease_from.simps vec_at_def
      size_t_minus_one_unat word_greater_zero_iff)

section \<open>The epoch loop\<close>

lemma backPropagate_rates_append:
  "backPropagate_rates (xs @ ys) = backPropagate_rates xs @ backPropagate_rates ys"
  by (induction xs rule: backPropagate_rates.induct) simp_all

lemma train_batches_fields:
  "Eout (train_batches C L st bs) = Eout st \<and> Ein (train_batches C L st bs) = Ein st"
  by (induction bs arbitrary: st) (simp_all add: Let_def split: prod.splits)

lemma train_batches_rates:
  "backPropagate_rates (trace (train_batches C L st bs)) =
     backPropagate_rates (trace st) @ replicate (length bs) (lr L)"
proof (induction bs arbitrary: st)
  case Nil
  then show ?case by simp
next
  case (Cons itr rest)
  have "replicate (length rest) (lr L) @ [lr L] = replicate (Suc (length rest)) (lr L)"
    by (simp add: replicate_append_same)
  then show ?case
    by (simp add: Cons.IH Let_def backPropagate_rates_append split: prod.splits)
qed

lemma train_batches_reports:
  "filter is_report (trace (train_batches C L st bs)) = filter is_report (trace st)"
  by (induction bs arbitrary: st) (simp_all add: Let_def split: prod.splits)

lemma stop_check_fields:
  assumes "stop_check C st epoch trainAcc validAcc = Inr (st', fl)"
  shows "Eout st' = Eout st \<and> Ein st' = Ein st \<and>
         backPropagate_rates (trace st') = backPropagate_rates (trace st)"
  using assms
  by (auto simp: stop_check_def adjust_step_def Let_def backPropagate_rates_append
      split: if_splits option.splits bool.splits)

lemma stop_check_Break:
  assumes "stop_check C st epoch trainAcc validAcc = Inr (st', Break)"
  shows "dnn st' = dnn st \<and> Eout st' = Eout st \<and> Ein st' = Ein st \<and>
         flt_greater C validAcc (minValidAccuracy (getConfig C (dnn st))) \<and>
         isEoutStopDecrease (Eout st) epoch (nNonIncEpoch (getConfig C (dnn st))) = Some True"
  using assms
  by (simp add: stop_check_def adjust_step_def Let_def
      split: if_splits option.splits bool.splits) auto

lemma epoch_body_Eout:
  assumes "epoch_body C L st epoch = Inr (st', fl)"
  shows "Eout st' = Eout st @
           [dnn_predict C (dnn (train_batches C L st (Batches C (batchSize L) (nTrain L))))
              (valid L) (errorMeasure L)]"
proof -
  let ?st1 = "train_batches C L st (Batches C (batchSize L) (nTrain L))"
  have f: "Eout ?st1 = Eout st" by (simp add: train_batches_fields)
  show ?thesis
  proof (cases "flt_negative C (flt_accuracy C (dnn_predict C (dnn ?st1) (train L) (errorMeasure L)) (nTrain L))")
    case True
    with assms f show ?thesis by (auto simp: epoch_body_def Let_def)
  next
    case False
    with assms f show ?thesis
      by (auto simp: epoch_body_def Let_def split: option.splits dest!: stop_check_fields)
  qed
qed

lemma epoch_body_rates:
  assumes "epoch_body C L st epoch = Inr (st', fl)"
  shows "backPropagate_rates (trace st') =
           backPropagate_rates (trace st) @
           replicate (length (Batches C (batchSize L) (nTrain L))) (lr L)"
proof -
  let ?st1 = "train_batches C L st (Batches C (batchSize L) (nTrain L))"
  have f: "backPropagate_rates (trace ?st1) =
           backPropagate_rates (trace st) @
           replicate (length (Batches C (batchSize L) (nTrain L))) (lr L)"
    by (rule train_batches_rates)
  show ?thesis
  proof (cases "flt_negative C (flt_accuracy C (dnn_predict C (dnn ?st1) (train L) (errorMeasure L)) (nTrain L))")
    case True
    with assms f show ?thesis
      by (auto simp: epoch_body_def Let_def backPropagate_rates_append)
  next
    case False
    with assms f show ?thesis
      by (auto simp: epoch_body_def Let_def backPropagate_rates_append
          split: option.splits dest!: stop_check_fields)
  qed
qed

lemma epoch_body_Break:
  assumes "epoch_body C L st epoch = Inr (st', Break)"
  shows "\<exists>e. vec_at (Eout st') epoch = Some e \<and>
           \<not> flt_negative C (flt_accuracy C (Ein st') (nTrain L)) \<and>
           flt_greater C (flt_accuracy C e (nValid L)) (minValidAccuracy (getConfig C (dnn st'))) \<and>
           isEoutStopDecrease (Eout st') epoch (nNonIncEpoch (getConfig C (dnn st'))) = Some True"
proof -
  let ?st1 = "train_batches C L st (Batches C (batchSize L) (nTrain L))"
  show ?thesis
  proof (cases "flt_negative C (flt_accuracy C (dnn_predict C (dnn ?st1) (train L) (errorMeasure L)) (nTrain L))")
    case True
    with assms show ?thesis by (simp add: epoch_body_def Let_def)
  next
    case False
    with assms show ?thesis
      by (auto simp: epoch_body_def Let_def split: option.splits dest!: stop_check_Break)
  qed
qed

lemma epoch_loop_cases [consumes 1, case_names bound break step]:
  assumes run: "epoch_loop C L st epoch = Inr (st', e', ex)"
    and bound: "\<And>st epoch. \<not> epoch < MAX_EPOCH L \<Longrightarrow> P st epoch st epoch Exit_bound"
    and break: "\<And>st epoch st1. epoch < MAX_EPOCH L \<Longrightarrow>
                  epoch_body C L st epoch = Inr (st1, Break) \<Longrightarrow> P st epoch st1 epoch Exit_break"
    and step: "\<And>st epoch st1 st' e' ex. epoch < MAX_EPOCH L \<Longrightarrow>
                  epoch_body C L st epoch = Inr (st1, Continue) \<Longrightarrow>
                  epoch_loop C L st1 (epoch + 1) = Inr (st', e', ex) \<Longrightarrow>
                  P st1 (epoch + 1) st' e' ex \<Longrightarrow> P st epoch st' e' ex"
  shows "P st epoch st' e' ex"
  using run bound break step
proof (induction C L st epoch rule: epoch_loop.induct)
  case (1 C L st epoch)
  note run = "1.prems"(1) and bound = "1.prems"(2) and break = "1.prems"(3)
    and step = "1.prems"(4)
  show ?case
  proof (cases "epoch < MAX_EPOCH L")
    case False
    with run have "st' = st" "e' = epoch" "ex = Exit_bound"
      by (simp_all add: epoch_loop.simps [of C L st epoch])
    with bound [OF False] show ?thesis by simp
  next
    case True
    show ?thesis
    proof (cases "epoch_body C L st epoch")
      case (Inl f)
      with True run show ?thesis by (simp add: epoch_loop.simps [of C L st epoch])
    next
      case (Inr p)
      obtain st1 fl where p: "p = (st1, fl)" by (cases p)
      show ?thesis
      proof (cases fl)
        case Break
        with True Inr p run have "st' = st1" "e' = epoch" "ex = Exit_break"
          by (simp_all add: epoch_loop.simps [of C L st epoch])
        moreover have "epoch_body C L st epoch = Inr (st1, Break)" using Inr p Break by simp
        ultimately show ?thesis using break [OF True] by simp
      next
        case Continue
        with True Inr p run have next_run: "epoch_loop C L st1 (epoch + 1) = Inr (st', e', ex)"
          by (simp add: epoch_loop.simps [of C L st epoch])
        have "P st1 (epoch + 1) st' e' ex"
          using "1.IH" [OF True Inr p [symmetric] Continue next_run bound break step] .
        moreover have "epoch_body C L st epoch = Inr (st1, Continue)" using Inr p Continue by simp
        ultimately show ?thesis using step [OF True _ next_run] by simp
      qed
    qed
  qed
qed

text \<open>The equations that evaluate a run of the small instance.\<close>

lemmas toy_simps = toy_def toy_config_def toy_errors_def dnn_train_def train_init_locals_def
  train_init_state_def train_summary_def epoch_loop.simps epoch_body_def stop_check_def
  adjust_step_def dnn_predict_def isEoutStopDecrease_def isEoutStopDecrease_from.simps
  vec_at_def Let_def

lemma stop_check_fault:
  assumes "stop_check C st epoch trainAcc validAcc = Inl f"
  shows "f = Policy_out_of_range"
  using assms
  by (auto simp: stop_check_def Let_def split: if_splits option.splits bool.splits)

lemma epoch_body_skip:
  assumes "flt_negative C (flt_accuracy C
             (dnn_predict C (dnn (train_batches C L st (Batches C (batchSize L) (nTrain L))))
                (train L) (errorMeasure L)) (nTrain L))"
  shows "epoch_body C L st epoch =
           Inr ((train_batches C L st (Batches C (batchSize L) (nTrain L)))
                  \<lparr>Ein := dnn_predict C (dnn (train_batches C L st (Batches C (batchSize L) (nTrain L))))
                            (train L) (errorMeasure L),
                   Eout := Eout st @
                     [dnn_predict C (dnn (train_batches C L st (Batches C (batchSize L) (nTrain L))))
                        (valid L) (errorMeasure L)],
                   trace := trace (train_batches C L st (Batches C (batchSize L) (nTrain L))) @ [Print_dot]\<rparr>,
                Continue)"
  using assms by (simp add: epoch_body_def Let_def train_batches_fields)

text \<open>
  C6: in an epoch whose training accuracy \<^verbatim>\<open>1 - Ein / nTrain\<close> is negative, the body
  of the loop ends with \<^verbatim>\<open>continue\<close>: it adds no row, no call of the stopping policy
  and no call of \<^verbatim>\<open>adjustLearningRate\<close> to the trace, the last thing it prints is the
  dot, the network is the one the batches left, the count of the validation set has
  been appended to the history, and the loop goes on with the next epoch.
\<close>

theorem negative_trainAcc_skips_epoch:
  assumes "flt_negative C (flt_accuracy C
             (dnn_predict C (dnn (train_batches C L st (Batches C (batchSize L) (nTrain L))))
                (train L) (errorMeasure L)) (nTrain L))"
  shows "\<exists>st'. epoch_body C L st epoch = Inr (st', Continue) \<and>
           filter is_report (trace st') = filter is_report (trace st) \<and>
           last (trace st') = Print_dot \<and>
           dnn st' = dnn (train_batches C L st (Batches C (batchSize L) (nTrain L))) \<and>
           Eout st' = Eout st @
             [dnn_predict C (dnn (train_batches C L st (Batches C (batchSize L) (nTrain L))))
                (valid L) (errorMeasure L)] \<and>
           (epoch < MAX_EPOCH L \<longrightarrow>
              epoch_loop C L st epoch = epoch_loop C L st' (epoch + 1))"
proof -
  let ?st1 = "train_batches C L st (Batches C (batchSize L) (nTrain L))"
  let ?st' = "?st1\<lparr>Ein := dnn_predict C (dnn ?st1) (train L) (errorMeasure L),
                    Eout := Eout st @ [dnn_predict C (dnn ?st1) (valid L) (errorMeasure L)],
                    trace := trace ?st1 @ [Print_dot]\<rparr>"
  have body: "epoch_body C L st epoch = Inr (?st', Continue)"
    using assms by (rule epoch_body_skip)
  have "filter is_report (trace ?st') = filter is_report (trace st)"
    by (simp add: train_batches_reports)
  moreover have "last (trace ?st') = Print_dot" by simp
  moreover have "dnn ?st' = dnn ?st1" by simp
  moreover have "Eout ?st' = Eout st @ [dnn_predict C (dnn ?st1) (valid L) (errorMeasure L)]"
    by simp
  moreover have "epoch < MAX_EPOCH L \<longrightarrow> epoch_loop C L st epoch = epoch_loop C L ?st' (epoch + 1)"
    using body by (simp add: epoch_loop.simps [of C L st epoch])
  ultimately show ?thesis using body by blast
qed

theorem negative_trainAcc_skips_epoch_witness:
  "flt_negative (toy [9, 9, 12, 7])
     (flt_accuracy (toy [9, 9, 12, 7])
        (dnn_predict (toy [9, 9, 12, 7])
           (dnn (train_batches (toy [9, 9, 12, 7])
                   (train_init_locals (toy [9, 9, 12, 7]) (0, toy_config 3 1) True False 32 CROSS_ENTROPY)
                   (train_init_state (toy [9, 9, 12, 7]) (0, toy_config 3 1))
                   (Batches (toy [9, 9, 12, 7]) 32 10)))
           True CROSS_ENTROPY) 10) \<and>
   (\<exists>st'. epoch_body (toy [9, 9, 12, 7])
            (train_init_locals (toy [9, 9, 12, 7]) (0, toy_config 3 1) True False 32 CROSS_ENTROPY)
            (train_init_state (toy [9, 9, 12, 7]) (0, toy_config 3 1)) 0 = Inr (st', Continue) \<and>
          filter is_report (trace st') = [] \<and> last (trace st') = Print_dot \<and> Eout st' = [7])"
  using negative_trainAcc_skips_epoch
    [of "toy [9, 9, 12, 7]"
        "train_init_locals (toy [9, 9, 12, 7]) (0, toy_config 3 1) True False 32 CROSS_ENTROPY"
        "train_init_state (toy [9, 9, 12, 7]) (0, toy_config 3 1)" 0]
  by (simp add: toy_simps)

lemma epoch_loop_Break:
  assumes "epoch_loop C L st epoch = Inr (st', e', ex)"
  shows "ex = Exit_break \<longrightarrow>
         e' < MAX_EPOCH L \<and>
         (\<exists>e. vec_at (Eout st') e' = Some e \<and>
           \<not> flt_negative C (flt_accuracy C (Ein st') (nTrain L)) \<and>
           flt_greater C (flt_accuracy C e (nValid L)) (minValidAccuracy (getConfig C (dnn st'))) \<and>
           isEoutStopDecrease (Eout st') e' (nNonIncEpoch (getConfig C (dnn st'))) = Some True)"
  using assms
proof (induction rule: epoch_loop_cases)
  case (bound st epoch)
  then show ?case by simp
next
  case (break st epoch st1)
  then show ?case using epoch_body_Break [of C L st epoch st1] by simp
next
  case (step st epoch st1 st' e' ex)
  then show ?case by simp
qed

lemma train_summary_fields:
  assumes "train_summary C L st epoch = Inr st'"
  shows "dnn st' = dnn st \<and> Eout st' = Eout st \<and> Ein st' = Ein st \<and>
         backPropagate_rates (trace st') = backPropagate_rates (trace st)"
  using assms
  by (auto simp: train_summary_def backPropagate_rates_append split: if_splits)

lemma dnn_train_Inr:
  assumes "dnn_train C d tr va bs em = Inr (st, epoch, ex)"
  shows "\<exists>st0. epoch_loop C (train_init_locals C d tr va bs em) (train_init_state C d) 0 =
                 Inr (st0, epoch, ex) \<and>
               train_summary C (train_init_locals C d tr va bs em) st0 epoch = Inr st"
  using assms
  by (auto simp: dnn_train_def Let_def split: sum.splits)

text \<open>
  C7: a run of \<^verbatim>\<open>dnn_train\<close> that leaves the epoch loop through \<^verbatim>\<open>break\<close> does so in
  an epoch below \<^verbatim>\<open>maxEpoch\<close> whose validation accuracy
  \<^verbatim>\<open>1 - Eout[epoch] / nValid\<close> is greater than \<^verbatim>\<open>minValidAccuracy\<close> and for which the
  stopping policy returned true; the policy alone never ends the training.
\<close>

theorem break_requires_accuracy_and_policy:
  assumes "dnn_train C d tr va bs em = Inr (st, epoch, Exit_break)"
  shows "epoch < maxEpoch (getConfig C d) \<and>
         (\<exists>e. vec_at (Eout st) epoch = Some e \<and>
            flt_greater C (flt_accuracy C e (data_size C va))
              (minValidAccuracy (getConfig C (dnn st))) \<and>
            isEoutStopDecrease (Eout st) epoch (nNonIncEpoch (getConfig C (dnn st))) = Some True)"
proof -
  let ?L = "train_init_locals C d tr va bs em"
  from dnn_train_Inr [OF assms] obtain st0 where
    run: "epoch_loop C ?L (train_init_state C d) 0 = Inr (st0, epoch, Exit_break)" and
    sum: "train_summary C ?L st0 epoch = Inr st"
    by blast
  from train_summary_fields [OF sum] have same: "dnn st = dnn st0" "Eout st = Eout st0"
    by simp_all
  from epoch_loop_Break [OF run] have
    "epoch < MAX_EPOCH ?L \<and>
     (\<exists>e. vec_at (Eout st0) epoch = Some e \<and>
        flt_greater C (flt_accuracy C e (nValid ?L)) (minValidAccuracy (getConfig C (dnn st0))) \<and>
        isEoutStopDecrease (Eout st0) epoch (nNonIncEpoch (getConfig C (dnn st0))) = Some True)"
    by blast
  then show ?thesis by (simp add: same train_init_locals_def)
qed

theorem break_requires_accuracy_and_policy_witness:
  "\<exists>st. dnn_train (toy [9, 9, 9, 9, 3, 4]) (0, toy_config 5 1) True False 32 CROSS_ENTROPY =
           Inr (st, 1, Exit_break) \<and>
        vec_at (Eout st) 1 = Some 4 \<and>
        flt_greater (toy [9, 9, 9, 9, 3, 4]) (flt_accuracy (toy [9, 9, 9, 9, 3, 4]) 4 10)
          (minValidAccuracy (getConfig (toy [9, 9, 9, 9, 3, 4]) (dnn st))) \<and>
        isEoutStopDecrease (Eout st) 1 (nNonIncEpoch (getConfig (toy [9, 9, 9, 9, 3, 4]) (dnn st)))
          = Some True"
proof -
  have "\<exists>st. dnn_train (toy [9, 9, 9, 9, 3, 4]) (0, toy_config 5 1) True False 32 CROSS_ENTROPY =
           Inr (st, 1, Exit_break) \<and> vec_at (Eout st) 1 = Some 4"
    by (simp add: toy_simps)
  then obtain st where
    run: "dnn_train (toy [9, 9, 9, 9, 3, 4]) (0, toy_config 5 1) True False 32 CROSS_ENTROPY =
           Inr (st, 1, Exit_break)" and at: "vec_at (Eout st) 1 = Some 4"
    by blast
  from break_requires_accuracy_and_policy [OF run] at
  have "flt_greater (toy [9, 9, 9, 9, 3, 4]) (flt_accuracy (toy [9, 9, 9, 9, 3, 4]) 4
          (data_size (toy [9, 9, 9, 9, 3, 4]) False))
          (minValidAccuracy (getConfig (toy [9, 9, 9, 9, 3, 4]) (dnn st))) \<and>
        isEoutStopDecrease (Eout st) 1 (nNonIncEpoch (getConfig (toy [9, 9, 9, 9, 3, 4]) (dnn st)))
          = Some True"
    by auto
  moreover have "data_size (toy [9, 9, 9, 9, 3, 4]) False = 10" by (simp add: toy_def)
  ultimately show ?thesis using run at by auto
qed

lemma epoch_loop_rates:
  assumes "epoch_loop C L st epoch = Inr (st', e', ex)"
  shows "\<exists>k. length (Eout st') = length (Eout st) + k \<and>
             backPropagate_rates (trace st') =
               backPropagate_rates (trace st) @
               replicate (k * length (Batches C (batchSize L) (nTrain L))) (lr L)"
  using assms
proof (induction rule: epoch_loop_cases)
  case (bound st epoch)
  have "length (Eout st) = length (Eout st) + 0 \<and>
        backPropagate_rates (trace st) = backPropagate_rates (trace st) @
          replicate (0 * length (Batches C (batchSize L) (nTrain L))) (lr L)"
    by simp
  then show ?case by blast
next
  case (break st epoch st1)
  have "length (Eout st1) = length (Eout st) + 1 \<and>
        backPropagate_rates (trace st1) = backPropagate_rates (trace st) @
          replicate (1 * length (Batches C (batchSize L) (nTrain L))) (lr L)"
    using epoch_body_Eout [OF break(2)] epoch_body_rates [OF break(2)] by simp
  then show ?case by blast
next
  case (step st epoch st1 st' e' ex)
  let ?nb = "length (Batches C (batchSize L) (nTrain L))"
  from step(4) obtain k where
    k: "length (Eout st') = length (Eout st1) + k"
       "backPropagate_rates (trace st') =
          backPropagate_rates (trace st1) @ replicate (k * ?nb) (lr L)"
    by blast
  have "length (Eout st') = length (Eout st) + Suc k"
    using k(1) epoch_body_Eout [OF step(2)] by simp
  moreover have "backPropagate_rates (trace st') =
        backPropagate_rates (trace st) @ replicate (Suc k * ?nb) (lr L)"
    using k(2) epoch_body_rates [OF step(2)] by (simp add: replicate_add)
  ultimately show ?case by blast
qed

lemma dnn_train_trace_rates:
  assumes "dnn_train C d tr va bs em = Inr (st, epoch, ex)"
  shows "backPropagate_rates (trace st) =
           replicate (length (Eout st) * length (Batches C bs (data_size C tr)))
             (flt_div C (learningRate (getConfig C d)) bs)"
proof -
  let ?L = "train_init_locals C d tr va bs em"
  from dnn_train_Inr [OF assms] obtain st0 where
    run: "epoch_loop C ?L (train_init_state C d) 0 = Inr (st0, epoch, ex)" and
    sum: "train_summary C ?L st0 epoch = Inr st"
    by blast
  from epoch_loop_rates [OF run] obtain k where
    k: "length (Eout st0) = length (Eout (train_init_state C d)) + k"
       "backPropagate_rates (trace st0) =
          backPropagate_rates (trace (train_init_state C d)) @
          replicate (k * length (Batches C (batchSize ?L) (nTrain ?L))) (lr ?L)"
    by blast
  from k(1) have "length (Eout st0) = k" by (simp add: train_init_state_def)
  moreover from k(2) have "backPropagate_rates (trace st0) =
      replicate (k * length (Batches C bs (data_size C tr)))
        (flt_div C (learningRate (getConfig C d)) bs)"
    by (simp add: train_init_state_def train_init_locals_def)
  ultimately show ?thesis using train_summary_fields [OF sum] by simp
qed

lemma vec_at_append_last:
  assumes "length v = unat k"
  shows "vec_at (v @ [x]) k = Some x"
  using nth_append_length [of v x] by (simp add: vec_at_def assms [symmetric])

lemma epoch_body_fault:
  assumes "length (Eout st) = unat epoch"
  shows "epoch_body C L st epoch \<noteq> Inl Eout_out_of_range"
proof -
  let ?st1 = "train_batches C L st (Batches C (batchSize L) (nTrain L))"
  let ?x = "dnn_predict C (dnn ?st1) (valid L) (errorMeasure L)"
  have at: "vec_at (Eout ?st1 @ [?x]) epoch = Some ?x"
    using assms by (simp add: vec_at_append_last train_batches_fields)
  show ?thesis
  proof (cases "flt_negative C (flt_accuracy C (dnn_predict C (dnn ?st1) (train L) (errorMeasure L)) (nTrain L))")
    case True
    then show ?thesis by (simp add: epoch_body_def Let_def)
  next
    case False
    then show ?thesis using at
      by (auto simp: epoch_body_def Let_def dest: stop_check_fault)
  qed
qed

lemma loop_head_length:
  assumes "loop_head C d L st epoch"
  shows "length (Eout st) = unat epoch"
  using assms
proof (induction rule: loop_head.induct)
  case loop_head_init
  show ?case by (simp add: train_init_state_def)
next
  case (loop_head_step st epoch st')
  from epoch_body_Eout [OF loop_head_step(3)] have "length (Eout st') = Suc (length (Eout st))"
    by simp
  then show ?case
    using loop_head_step(4) size_t_succ_unat [OF loop_head_step(2)] by simp
qed

lemma loop_head_run:
  assumes "loop_head C d L st epoch"
  shows "epoch_loop C L (train_init_state C d) 0 = epoch_loop C L st epoch"
  using assms
proof (induction rule: loop_head.induct)
  case loop_head_init
  show ?case by simp
next
  case (loop_head_step st epoch st')
  have "epoch_loop C L st epoch = epoch_loop C L st' (epoch + 1)"
    using loop_head_step(2,3) by (simp add: epoch_loop.simps [of C L st epoch])
  with loop_head_step(4) show ?case by simp
qed

text \<open>
  C8: in a run of \<^verbatim>\<open>dnn_train\<close>, whenever the loop condition is tested with the value
  \<open>epoch\<close>, the history has \<open>epoch\<close> entries. The pass of the body for that epoch, also
  one that is skipped for a negative training accuracy, never reads \<^verbatim>\<open>Eout[epoch]\<close>
  outside the vector, and when it completes it has appended exactly one count to the
  history and changed no earlier entry: the history then has \<open>epoch + 1\<close> entries and
  \<^verbatim>\<open>Eout[epoch]\<close> is the count just appended.
\<close>

theorem Eout_history_append_only:
  assumes "loop_head C d L st epoch"
  shows "length (Eout st) = unat epoch \<and>
         epoch_loop C L (train_init_state C d) 0 = epoch_loop C L st epoch \<and>
         epoch_body C L st epoch \<noteq> Inl Eout_out_of_range \<and>
         (\<forall>st' fl. epoch_body C L st epoch = Inr (st', fl) \<longrightarrow>
            (\<exists>x. Eout st' = Eout st @ [x] \<and> vec_at (Eout st') epoch = Some x) \<and>
            length (Eout st') = unat epoch + 1)"
proof -
  have len: "length (Eout st) = unat epoch" using assms by (rule loop_head_length)
  have "\<forall>st' fl. epoch_body C L st epoch = Inr (st', fl) \<longrightarrow>
            (\<exists>x. Eout st' = Eout st @ [x] \<and> vec_at (Eout st') epoch = Some x) \<and>
            length (Eout st') = unat epoch + 1"
  proof (intro allI impI)
    fix st' fl
    assume body: "epoch_body C L st epoch = Inr (st', fl)"
    let ?x = "dnn_predict C (dnn (train_batches C L st (Batches C (batchSize L) (nTrain L))))
                (valid L) (errorMeasure L)"
    have app: "Eout st' = Eout st @ [?x]" using body by (rule epoch_body_Eout)
    then have "vec_at (Eout st') epoch = Some ?x" using len by (simp add: vec_at_append_last)
    with app len show "(\<exists>x. Eout st' = Eout st @ [x] \<and> vec_at (Eout st') epoch = Some x) \<and>
            length (Eout st') = unat epoch + 1"
      by simp
  qed
  with len loop_head_run [OF assms] epoch_body_fault [OF len] show ?thesis by blast
qed

theorem Eout_history_append_only_witness:
  "\<exists>st. loop_head (toy [9, 9, 9, 9, 3, 4]) (0, toy_config 5 1)
           (train_init_locals (toy [9, 9, 9, 9, 3, 4]) (0, toy_config 5 1) True False 32 CROSS_ENTROPY)
           st 1 \<and>
        Eout st = [9] \<and> length (Eout st) = unat (1 :: size_t) \<and>
        epoch_body (toy [9, 9, 9, 9, 3, 4])
           (train_init_locals (toy [9, 9, 9, 9, 3, 4]) (0, toy_config 5 1) True False 32 CROSS_ENTROPY)
           st 1 \<noteq> Inl Eout_out_of_range"
proof -
  let ?C = "toy [9, 9, 9, 9, 3, 4]"
  let ?d = "(0 :: nat, toy_config 5 1)"
  let ?L = "train_init_locals ?C ?d True False 32 CROSS_ENTROPY"
  have "\<exists>st. epoch_body ?C ?L (train_init_state ?C ?d) 0 = Inr (st, Continue) \<and> Eout st = [9]"
    by (simp add: toy_simps)
  then obtain st where body: "epoch_body ?C ?L (train_init_state ?C ?d) 0 = Inr (st, Continue)"
    and h: "Eout st = [9]"
    by blast
  have "(0 :: size_t) < MAX_EPOCH ?L" by (simp add: toy_simps)
  from loop_head_step [OF loop_head_init this body] have head: "loop_head ?C ?d ?L st 1" by simp
  from Eout_history_append_only [OF head] h head show ?thesis by blast
qed

text \<open>
  The learning rates of the calls of \<^verbatim>\<open>backPropagate\<close> made before the loop condition
  is tested with the value \<open>epoch\<close>, also in a run that later reads outside the
  history: one for every batch of every epoch so far, each the rate set before the loop.
\<close>

lemma loop_head_rates:
  assumes "loop_head C d L st epoch"
  shows "backPropagate_rates (trace st) =
           replicate (unat epoch * length (Batches C (batchSize L) (nTrain L))) (lr L)"
  using assms
proof (induction rule: loop_head.induct)
  case loop_head_init
  show ?case by (simp add: train_init_state_def)
next
  case (loop_head_step st epoch st')
  let ?nb = "length (Batches C (batchSize L) (nTrain L))"
  have "replicate (Suc (unat epoch) * ?nb) (lr L) =
        replicate (unat epoch * ?nb) (lr L) @ replicate ?nb (lr L)"
    by (simp add: replicate_add [symmetric] add.commute)
  then show ?case
    using epoch_body_rates [OF loop_head_step(3)] loop_head_step(4)
      size_t_succ_unat [OF loop_head_step(2)]
    by simp
qed

lemma train_batches_received:
  assumes bp: "\<And>d e x f r. received (backPropagate C d e x f r) = received d @ [r]"
    and ff: "\<And>d f x. received (fst (feedForward_to C d f x)) = received d"
  shows "received (dnn (train_batches C L st bs)) =
           received (dnn st) @ replicate (length bs) (lr L)"
proof (induction bs arbitrary: st)
  case Nil
  show ?case by simp
next
  case (Cons itr rest)
  obtain x y where xy: "data_batch C (train L) itr = (x, y)"
    by (cases "data_batch C (train L) itr")
  obtain d1 fout1 where f1: "feedForward_to C (dnn st) (fout st) x = (d1, fout1)"
    by (cases "feedForward_to C (dnn st) (fout st) x")
  have d1: "received d1 = received (dnn st)"
    using ff [of "dnn st" "fout st" x] by (simp add: f1)
  let ?e = "getError C y fout1 (errorMeasure L)"
  let ?st = "st\<lparr>dnn := backPropagate C d1 ?e x fout1 (lr L), fout := fout1,
               trace := trace st @ [Call_backPropagate ?e x fout1 (lr L)]\<rparr>"
  have step: "train_batches C L st (itr # rest) = train_batches C L ?st rest"
    by (simp add: xy f1 Let_def)
  have one: "received (dnn ?st) = received (dnn st) @ [lr L]"
    by (simp add: bp d1)
  have "received (dnn (train_batches C L ?st rest)) =
        received (dnn ?st) @ replicate (length rest) (lr L)"
    by (rule Cons.IH)
  then show ?case
    unfolding step one by simp
qed

lemma stop_check_dnn:
  assumes "stop_check C st epoch trainAcc validAcc = Inr (st', fl)"
  shows "dnn st' = dnn st \<or> dnn st' = adjustLearningRate C (dnn st) trainAcc"
  using assms
  by (auto simp: stop_check_def adjust_step_def Let_def
      split: if_splits option.splits bool.splits)

lemma epoch_body_dnn:
  assumes "epoch_body C L st epoch = Inr (st', fl)"
  shows "dnn st' = dnn (train_batches C L st (Batches C (batchSize L) (nTrain L))) \<or>
         (\<exists>a. dnn st' =
            adjustLearningRate C (dnn (train_batches C L st (Batches C (batchSize L) (nTrain L)))) a)"
proof -
  let ?st1 = "train_batches C L st (Batches C (batchSize L) (nTrain L))"
  show ?thesis
  proof (cases "flt_negative C (flt_accuracy C (dnn_predict C (dnn ?st1) (train L) (errorMeasure L)) (nTrain L))")
    case True
    with assms show ?thesis by (auto simp: epoch_body_def Let_def)
  next
    case False
    with assms show ?thesis
      by (auto simp: epoch_body_def Let_def split: option.splits dest!: stop_check_dnn)
  qed
qed

lemma epoch_body_received:
  assumes bp: "\<And>d e x f r. received (backPropagate C d e x f r) = received d @ [r]"
    and ff: "\<And>d f x. received (fst (feedForward_to C d f x)) = received d"
    and adj: "\<And>d a. received (adjustLearningRate C d a) = received d"
    and body: "epoch_body C L st epoch = Inr (st', fl)"
  shows "received (dnn st') =
           received (dnn st) @ replicate (length (Batches C (batchSize L) (nTrain L))) (lr L)"
  using epoch_body_dnn [OF body] train_batches_received [of received C, OF bp ff] adj
  by auto

lemma loop_head_received:
  assumes bp: "\<And>d e x f r. received (backPropagate C d e x f r) = received d @ [r]"
    and ff: "\<And>d f x. received (fst (feedForward_to C d f x)) = received d"
    and adj: "\<And>d a. received (adjustLearningRate C d a) = received d"
    and head: "loop_head C d L st epoch"
  shows "received (dnn st) =
           received d @ replicate (unat epoch * length (Batches C (batchSize L) (nTrain L))) (lr L)"
  using head
proof (induction rule: loop_head.induct)
  case loop_head_init
  show ?case by (simp add: train_init_state_def)
next
  case (loop_head_step st epoch st')
  let ?nb = "length (Batches C (batchSize L) (nTrain L))"
  have "replicate (Suc (unat epoch) * ?nb) (lr L) =
        replicate (unat epoch * ?nb) (lr L) @ replicate ?nb (lr L)"
    by (simp add: replicate_add [symmetric] add.commute)
  then show ?case
    using epoch_body_received [of received C, OF bp ff adj loop_head_step(3)] loop_head_step(4)
      size_t_succ_unat [OF loop_head_step(2)]
    by simp
qed

lemma epoch_loop_received:
  assumes bp: "\<And>d e x f r. received (backPropagate C d e x f r) = received d @ [r]"
    and ff: "\<And>d f x. received (fst (feedForward_to C d f x)) = received d"
    and adj: "\<And>d a. received (adjustLearningRate C d a) = received d"
    and run: "epoch_loop C L st epoch = Inr (st', e', ex)"
  shows "\<exists>k. length (Eout st') = length (Eout st) + k \<and>
             received (dnn st') =
               received (dnn st) @
               replicate (k * length (Batches C (batchSize L) (nTrain L))) (lr L)"
  using run
proof (induction rule: epoch_loop_cases)
  case (bound st epoch)
  have "length (Eout st) = length (Eout st) + 0 \<and>
        received (dnn st) = received (dnn st) @
          replicate (0 * length (Batches C (batchSize L) (nTrain L))) (lr L)"
    by simp
  then show ?case by blast
next
  case (break st epoch st1)
  have "length (Eout st1) = length (Eout st) + 1 \<and>
        received (dnn st1) = received (dnn st) @
          replicate (1 * length (Batches C (batchSize L) (nTrain L))) (lr L)"
    using epoch_body_Eout [OF break(2)] epoch_body_received [of received C, OF bp ff adj break(2)]
    by simp
  then show ?case by blast
next
  case (step st epoch st1 st' e' ex)
  let ?nb = "length (Batches C (batchSize L) (nTrain L))"
  from step(4) obtain k where
    k: "length (Eout st') = length (Eout st1) + k"
       "received (dnn st') = received (dnn st1) @ replicate (k * ?nb) (lr L)"
    by blast
  have "length (Eout st') = length (Eout st) + Suc k"
    using k(1) epoch_body_Eout [OF step(2)] by simp
  moreover have "received (dnn st') = received (dnn st) @ replicate (Suc k * ?nb) (lr L)"
    using k(2) epoch_body_received [of received C, OF bp ff adj step(2)]
    by (simp add: replicate_add)
  ultimately show ?case by blast
qed

lemma dnn_train_received:
  assumes bp: "\<And>d e x f r. received (backPropagate C d e x f r) = received d @ [r]"
    and ff: "\<And>d f x. received (fst (feedForward_to C d f x)) = received d"
    and adj: "\<And>d a. received (adjustLearningRate C d a) = received d"
    and run: "dnn_train C d tr va bs em = Inr (st, epoch, ex)"
  shows "received (dnn st) =
           received d @
           replicate (length (Eout st) * length (Batches C bs (data_size C tr)))
             (flt_div C (learningRate (getConfig C d)) bs)"
proof -
  let ?L = "train_init_locals C d tr va bs em"
  from dnn_train_Inr [OF run] obtain st0 where
    loop: "epoch_loop C ?L (train_init_state C d) 0 = Inr (st0, epoch, ex)" and
    sum: "train_summary C ?L st0 epoch = Inr st"
    by blast
  from epoch_loop_received [of received C, OF bp ff adj loop] obtain k where
    k: "length (Eout st0) = length (Eout (train_init_state C d)) + k"
       "received (dnn st0) =
          received (dnn (train_init_state C d)) @
          replicate (k * length (Batches C (batchSize ?L) (nTrain ?L))) (lr ?L)"
    by blast
  from k(1) have "length (Eout st0) = k" by (simp add: train_init_state_def)
  moreover from k(2) have "received (dnn st0) =
      received d @ replicate (k * length (Batches C bs (data_size C tr)))
        (flt_div C (learningRate (getConfig C d)) bs)"
    by (simp add: train_init_state_def train_init_locals_def)
  ultimately show ?thesis using train_summary_fields [OF sum] by simp
qed

text \<open>
  C9: let \<open>received\<close> read, from a network, the learning rates that \<^verbatim>\<open>backPropagate\<close> has
  been handed so far: \<^verbatim>\<open>backPropagate\<close> adds its rate at the end, and \<^verbatim>\<open>feedForward\<close> and
  \<^verbatim>\<open>adjustLearningRate\<close> leave the rates as they are. Then whenever a run of
  \<^verbatim>\<open>dnn_train\<close> tests the loop condition, the network has received one rate for every
  batch of every epoch so far, and the batches of the next epoch hand it one rate each,
  also in an epoch that later reads outside the history. Every rate is
  \<^verbatim>\<open>dnn.getConfig().learningRate / batchSize\<close> of the network before the first epoch,
  whatever \<^verbatim>\<open>adjustLearningRate\<close> does to the network in between. A run that returns has
  handed over, and logged, that rate once for every batch of every epoch that ran.
\<close>

theorem backPropagate_uses_initial_rate:
  assumes bp: "\<And>d e x f r. received (backPropagate C d e x f r) = received d @ [r]"
    and ff: "\<And>d f x. received (fst (feedForward_to C d f x)) = received d"
    and adj: "\<And>d a. received (adjustLearningRate C d a) = received d"
  shows "(\<forall>st epoch. loop_head C d (train_init_locals C d tr va bs em) st epoch \<longrightarrow>
            received (dnn st) =
              received d @
              replicate (unat epoch * length (Batches C bs (data_size C tr)))
                (flt_div C (learningRate (getConfig C d)) bs) \<and>
            received (dnn (train_batches C (train_init_locals C d tr va bs em) st
                             (Batches C bs (data_size C tr)))) =
              received (dnn st) @
              replicate (length (Batches C bs (data_size C tr)))
                (flt_div C (learningRate (getConfig C d)) bs)) \<and>
         (\<forall>st epoch ex. dnn_train C d tr va bs em = Inr (st, epoch, ex) \<longrightarrow>
            received (dnn st) =
              received d @
              replicate (length (Eout st) * length (Batches C bs (data_size C tr)))
                (flt_div C (learningRate (getConfig C d)) bs) \<and>
            backPropagate_rates (trace st) =
              replicate (length (Eout st) * length (Batches C bs (data_size C tr)))
                (flt_div C (learningRate (getConfig C d)) bs))"
proof (intro conjI allI impI)
  fix st epoch
  assume head: "loop_head C d (train_init_locals C d tr va bs em) st epoch"
  show "received (dnn st) =
          received d @
          replicate (unat epoch * length (Batches C bs (data_size C tr)))
            (flt_div C (learningRate (getConfig C d)) bs)"
    using loop_head_received [of received C, OF bp ff adj head]
    by (simp add: train_init_locals_def)
next
  fix st epoch
  show "received (dnn (train_batches C (train_init_locals C d tr va bs em) st
                         (Batches C bs (data_size C tr)))) =
          received (dnn st) @
          replicate (length (Batches C bs (data_size C tr)))
            (flt_div C (learningRate (getConfig C d)) bs)"
    using train_batches_received [of received C, OF bp ff]
    by (simp add: train_init_locals_def)
next
  fix st epoch ex
  assume run: "dnn_train C d tr va bs em = Inr (st, epoch, ex)"
  show "received (dnn st) =
          received d @
          replicate (length (Eout st) * length (Batches C bs (data_size C tr)))
            (flt_div C (learningRate (getConfig C d)) bs)"
    by (rule dnn_train_received [of received C, OF bp ff adj run])
  show "backPropagate_rates (trace st) =
          replicate (length (Eout st) * length (Batches C bs (data_size C tr)))
            (flt_div C (learningRate (getConfig C d)) bs)"
    by (rule dnn_train_trace_rates [OF run])
qed

theorem backPropagate_uses_initial_rate_witness:
  "(\<forall>d e x f r. snd (backPropagate (recording (toy [9, 9, 9, 9, 3, 4])) d e x f r) = snd d @ [r]) \<and>
   (\<forall>d f x. snd (fst (feedForward_to (recording (toy [9, 9, 9, 9, 3, 4])) d f x)) = snd d) \<and>
   (\<forall>d a. snd (adjustLearningRate (recording (toy [9, 9, 9, 9, 3, 4])) d a) = snd d) \<and>
   (\<exists>st. loop_head (recording (toy [9, 9, 9, 9, 3, 4])) ((0, toy_config 5 1), [])
            (train_init_locals (recording (toy [9, 9, 9, 9, 3, 4])) ((0, toy_config 5 1), [])
               True False 32 CROSS_ENTROPY) st 1 \<and>
          snd (dnn st) = [2] \<and>
          snd (dnn (train_batches (recording (toy [9, 9, 9, 9, 3, 4]))
                      (train_init_locals (recording (toy [9, 9, 9, 9, 3, 4]))
                         ((0, toy_config 5 1), []) True False 32 CROSS_ENTROPY) st
                      (Batches (recording (toy [9, 9, 9, 9, 3, 4])) 32 10))) = [2, 2]) \<and>
   (\<exists>st. dnn_train (recording (toy [9, 9, 9, 9, 3, 4])) ((0, toy_config 5 1), [])
            True False 32 CROSS_ENTROPY = Inr (st, 1, Exit_break) \<and>
          learningRate (getConfig (recording (toy [9, 9, 9, 9, 3, 4])) (dnn st)) = 32 \<and>
          snd (dnn st) = [2, 2] \<and>
          backPropagate_rates (trace st) = [2, 2])"
proof -
  let ?C = "recording (toy [9, 9, 9, 9, 3, 4])"
  let ?d = "((0 :: nat, toy_config 5 1), [] :: int list)"
  let ?L = "train_init_locals ?C ?d True False 32 CROSS_ENTROPY"
  have bp: "\<And>d e x f r. snd (backPropagate ?C d e x f r) = snd d @ [r]"
    by (simp add: recording_def)
  have ff: "\<And>d f x. snd (fst (feedForward_to ?C d f x)) = snd d"
    by (simp add: recording_def)
  have adj: "\<And>d a. snd (adjustLearningRate ?C d a) = snd d"
    by (simp add: recording_def)
  note rate = backPropagate_uses_initial_rate [of snd ?C ?d True False 32 CROSS_ENTROPY, OF bp ff adj]
  have one: "replicate (Suc 0) (2 :: int) = [2]" by simp
  have two: "replicate 2 (2 :: int) = [2, 2]" by (simp add: numeral_2_eq_2)
  have vals: "data_size ?C True = 10" "Batches ?C 32 10 = [0]"
    "flt_div ?C (learningRate (getConfig ?C ?d)) 32 = 2"
    by (simp_all add: recording_def toy_def toy_config_def)
  have "\<exists>st. epoch_body ?C ?L (train_init_state ?C ?d) 0 = Inr (st, Continue)"
    by (simp add: recording_def toy_simps)
  then obtain st1 where body: "epoch_body ?C ?L (train_init_state ?C ?d) 0 = Inr (st1, Continue)"
    by blast
  have "(0 :: size_t) < MAX_EPOCH ?L" by (simp add: recording_def toy_simps)
  from loop_head_step [OF loop_head_init this body] have head: "loop_head ?C ?d ?L st1 1" by simp
  have a: "snd (dnn st1) = [2]"
    using rate head by (simp add: vals one)
  have b: "snd (dnn (train_batches ?C ?L st1 (Batches ?C 32 10))) = [2, 2]"
    using rate head a by (simp add: vals one)
  have "\<exists>st. dnn_train ?C ?d True False 32 CROSS_ENTROPY = Inr (st, 1, Exit_break) \<and>
          Eout st = [9, 4] \<and> learningRate (getConfig ?C (dnn st)) = 32"
    by (simp add: recording_def toy_simps)
  then obtain st where run: "dnn_train ?C ?d True False 32 CROSS_ENTROPY = Inr (st, 1, Exit_break)"
    and h: "Eout st = [9, 4]" and r: "learningRate (getConfig ?C (dnn st)) = 32"
    by blast
  have c: "snd (dnn st) = [2, 2] \<and> backPropagate_rates (trace st) = [2, 2]"
    using rate run h by (simp add: vals two)
  from bp ff adj head a b run r c show ?thesis by blast
qed

section \<open>Two runs of the small instance\<close>

text \<open>
  The equations evaluate whole runs of \<^verbatim>\<open>main\<close>. With error counts that never reach the
  minimal validation accuracy the run returns 0 after two epochs and saves the model
  under the default name. With error counts that pass it in epoch 1 the stopping policy
  is called with the default patience of 6 and reads outside the history.
\<close>

lemma find_last_of_toy: "find_last_of ''data/train.dat'' CHR ''/'' = 4"
  by (simp add: find_last_of_def upt_rec)

lemma model_out_toy: "main_model_out toy_cmd = Some ''train.dat.model''"
  by (simp add: main_model_out_def toy_cmd_def substr_def find_last_of_toy Let_def)

lemma train_call_toy:
  "main_train_call toy_main toy_cmd =
     \<lparr>call_dnn = (0, \<lparr>variance = 1, learningRate = 64, minValidAccuracy = 50, maxEpoch = 2,
                        nNonIncEpoch = 6\<rparr>),
      call_train = True, call_valid = False, call_batchSize = 32,
      call_errorMeasure = CROSS_ENTROPY\<rparr>"
  by (simp add: main_train_call_def main_config_def main_data_def toy_main_def toy_cmd_def
      toy_config_def toy_decimal_def Let_def)

lemma dnn_train_toy_fault:
  "dnn_train (toy [9, 9, 9, 9, 3, 4])
     (0, \<lparr>variance = 1, learningRate = 64, minValidAccuracy = 50, maxEpoch = 2,
          nNonIncEpoch = 6\<rparr>) True False 32 CROSS_ENTROPY = Inl Policy_out_of_range"
  by (simp add: toy_simps size_t_minus_one_unat word_greater_zero_iff)

lemma main_toy_fault:
  "isOptionLegal toy_main toy_cmd \<and>
   main (toy [9, 9, 9, 9, 3, 4]) toy_main toy_cmd = Main_fault Policy_out_of_range"
proof -
  have "isOptionLegal toy_main toy_cmd" by (simp add: toy_main_def toy_cmd_def)
  then show ?thesis
    by (simp add: main_def train_call_toy dnn_train_toy_fault Let_def)
qed

lemma main_toy_return:
  "\<exists>evs. main (toy [9, 9, 9, 9, 9, 9]) toy_main toy_cmd = Main_return 0 evs \<and>
     filter is_report evs =
       [Print_row 0 1000 1 1000 1, Call_adjustLearningRate 10,
        Print_row 1 1000 1 1000 1, Call_adjustLearningRate 10] \<and>
     last evs =
       Call_save (2, \<lparr>variance = 1, learningRate = 16, minValidAccuracy = 50, maxEpoch = 2,
                        nNonIncEpoch = 6\<rparr>) ''train.dat.model''"
proof -
  have "\<exists>st. dnn_train (toy [9, 9, 9, 9, 9, 9])
     (0, \<lparr>variance = 1, learningRate = 64, minValidAccuracy = 50, maxEpoch = 2,
          nNonIncEpoch = 6\<rparr>) True False 32 CROSS_ENTROPY = Inr (st, 2, Exit_bound) \<and>
     filter is_report (trace st) =
       [Print_row 0 1000 1 1000 1, Call_adjustLearningRate 10,
        Print_row 1 1000 1 1000 1, Call_adjustLearningRate 10] \<and>
     dnn st = (2, \<lparr>variance = 1, learningRate = 16, minValidAccuracy = 50, maxEpoch = 2,
                     nNonIncEpoch = 6\<rparr>)"
    by (simp add: toy_simps)
  then obtain st where run: "dnn_train (toy [9, 9, 9, 9, 9, 9])
     (0, \<lparr>variance = 1, learningRate = 64, minValidAccuracy = 50, maxEpoch = 2,
          nNonIncEpoch = 6\<rparr>) True False 32 CROSS_ENTROPY = Inr (st, 2, Exit_bound)"
    and rep: "filter is_report (trace st) =
       [Print_row 0 1000 1 1000 1, Call_adjustLearningRate 10,
        Print_row 1 1000 1 1000 1, Call_adjustLearningRate 10]"
    and d: "dnn st = (2, \<lparr>variance = 1, learningRate = 16, minValidAccuracy = 50, maxEpoch = 2,
                     nNonIncEpoch = 6\<rparr>)"
    by blast
  have legal: "isOptionLegal toy_main toy_cmd" by (simp add: toy_main_def toy_cmd_def)
  show ?thesis
    by (simp add: main_def legal train_call_toy run model_out_toy rep d Let_def)
qed

section \<open>The entry point: what the command line determines\<close>

text \<open>
  C4, as claimed: the patience window \<^verbatim>\<open>nNonIncEpoch\<close> of the configuration that
  \<^verbatim>\<open>main\<close> builds is a value supplied on the command line. With a default of 6 and
  the command line of the small instance, the value is the default, and it is the value
  of none of the options.
\<close>

theorem nNonIncEpoch_not_from_command_line:
  "nNonIncEpoch (main_config toy_main toy_cmd) = nNonIncEpoch (Config_default toy_main) \<and>
   nNonIncEpoch (main_config toy_main toy_cmd) = 6 \<and>
   nNonIncEpoch (main_config toy_main toy_cmd) \<notin>
     set (map (to_size_t toy_main)
       [opt_input_dim toy_cmd, opt_normalize toy_cmd, opt_nf toy_cmd, opt_base toy_cmd,
        opt_v toy_cmd, opt_max_epoch toy_cmd, opt_min_acc toy_cmd, opt_learning_rate toy_cmd,
        opt_variance toy_cmd, opt_batch_size toy_cmd, opt_type toy_cmd, opt_cache toy_cmd])"
  by (simp add: main_config_def toy_main_def toy_cmd_def toy_config_def toy_decimal_def)

text \<open>
  C4, amended: the configuration that \<^verbatim>\<open>main\<close> hands to the network with
  \<^verbatim>\<open>setConfig\<close> before the training has its variance, learning rate, minimal validation
  accuracy and maximal epoch from the command line; its patience window
  \<^verbatim>\<open>nNonIncEpoch\<close> is the one of a default-constructed \<^verbatim>\<open>Config\<close>, whatever the
  command line is.
\<close>

theorem main_config_fields:
  "variance (main_config M cmd) = to_float M (opt_variance cmd) \<and>
   learningRate (main_config M cmd) = to_float M (opt_learning_rate cmd) \<and>
   minValidAccuracy (main_config M cmd) = to_float M (opt_min_acc cmd) \<and>
   maxEpoch (main_config M cmd) = to_size_t M (opt_max_epoch cmd) \<and>
   nNonIncEpoch (main_config M cmd) = nNonIncEpoch (Config_default M) \<and>
   call_dnn (main_train_call M cmd) =
     setConfig M (DNN_load M (arg_model_in cmd)) (main_config M cmd)"
  by (simp add: main_config_def main_train_call_def Let_def split: prod.splits)

text \<open>
  C5: the error measure passed to \<^verbatim>\<open>dnn_train\<close> is claimed to follow the option
  \<^verbatim>\<open>--type\<close>. With \<^verbatim>\<open>--type 1\<close>, which the usage text of \<^verbatim>\<open>main\<close> documents as
  regression, \<^verbatim>\<open>main\<close> calls \<^verbatim>\<open>dnn_train\<close> with \<^verbatim>\<open>CROSS_ENTROPY\<close>, and with the very
  arguments it uses for \<^verbatim>\<open>--type 0\<close>.
\<close>

theorem type_option_is_ignored:
  "call_errorMeasure (main_train_call M (cmd\<lparr>opt_type := ''1''\<rparr>)) = CROSS_ENTROPY \<and>
   main_train_call M (cmd\<lparr>opt_type := ''1''\<rparr>) = main_train_call M (cmd\<lparr>opt_type := ''0''\<rparr>)"
  by (simp add: main_train_call_def main_config_def main_data_def Let_def split: prod.splits)

text \<open>
  C10: two command lines that differ only in the value of \<^verbatim>\<open>--nf\<close>, and that the
  parser's check \<^verbatim>\<open>isOptionLegal\<close> treats alike, give the same run of \<^verbatim>\<open>main\<close>: the
  same exit, the same output and calls in the same order, and the same saved model.
\<close>

theorem nf_has_no_effect:
  assumes "isOptionLegal M (cmd\<lparr>opt_nf := a\<rparr>) = isOptionLegal M (cmd\<lparr>opt_nf := b\<rparr>)"
  shows "main C M (cmd\<lparr>opt_nf := a\<rparr>) = main C M (cmd\<lparr>opt_nf := b\<rparr>)"
proof -
  have config: "main_config M (cmd\<lparr>opt_nf := a\<rparr>) = main_config M (cmd\<lparr>opt_nf := b\<rparr>)"
    by (simp add: main_config_def)
  have data: "main_data M (cmd\<lparr>opt_nf := a\<rparr>) = main_data M (cmd\<lparr>opt_nf := b\<rparr>)"
    by (simp add: main_data_def Let_def)
  have call: "main_train_call M (cmd\<lparr>opt_nf := a\<rparr>) = main_train_call M (cmd\<lparr>opt_nf := b\<rparr>)"
    by (simp add: main_train_call_def config data Let_def)
  have out: "main_model_out (cmd\<lparr>opt_nf := a\<rparr>) = main_model_out (cmd\<lparr>opt_nf := b\<rparr>)"
    by (simp add: main_model_out_def Let_def)
  have cache: "opt_cache (cmd\<lparr>opt_nf := a\<rparr>) = opt_cache (cmd\<lparr>opt_nf := b\<rparr>)"
    by simp
  show ?thesis
    unfolding main_def config data call out cache assms ..
qed

theorem nf_has_no_effect_witness:
  "isOptionLegal toy_main (toy_cmd\<lparr>opt_nf := ''stats.txt''\<rparr>) =
     isOptionLegal toy_main (toy_cmd\<lparr>opt_nf := []\<rparr>) \<and>
   isOptionLegal toy_main (toy_cmd\<lparr>opt_nf := ''stats.txt''\<rparr>) \<and>
   (\<exists>evs. main (toy [9, 9, 9, 9, 9, 9]) toy_main (toy_cmd\<lparr>opt_nf := ''stats.txt''\<rparr>) =
            Main_return 0 evs \<and>
          main (toy [9, 9, 9, 9, 9, 9]) toy_main (toy_cmd\<lparr>opt_nf := []\<rparr>) =
            Main_return 0 evs \<and>
          filter is_report evs =
            [Print_row 0 1000 1 1000 1, Call_adjustLearningRate 10,
             Print_row 1 1000 1 1000 1, Call_adjustLearningRate 10] \<and>
          last evs =
            Call_save (2, \<lparr>variance = 1, learningRate = 16, minValidAccuracy = 50,
                             maxEpoch = 2, nNonIncEpoch = 6\<rparr>) ''train.dat.model'')"
proof -
  have legal: "isOptionLegal toy_main (toy_cmd\<lparr>opt_nf := ''stats.txt''\<rparr>) =
     isOptionLegal toy_main (toy_cmd\<lparr>opt_nf := []\<rparr>)"
    by (simp add: toy_main_def)
  have legal': "isOptionLegal toy_main (toy_cmd\<lparr>opt_nf := ''stats.txt''\<rparr>)"
    by (simp add: toy_main_def toy_cmd_def)
  have same: "toy_cmd\<lparr>opt_nf := []\<rparr> = toy_cmd" by (simp add: toy_cmd_def)
  from main_toy_return obtain evs where
    run: "main (toy [9, 9, 9, 9, 9, 9]) toy_main toy_cmd = Main_return 0 evs" and
    rep: "filter is_report evs =
            [Print_row 0 1000 1 1000 1, Call_adjustLearningRate 10,
             Print_row 1 1000 1 1000 1, Call_adjustLearningRate 10]" and
    sav: "last evs =
            Call_save (2, \<lparr>variance = 1, learningRate = 16, minValidAccuracy = 50,
                             maxEpoch = 2, nNonIncEpoch = 6\<rparr>) ''train.dat.model''"
    by blast
  have "main (toy [9, 9, 9, 9, 9, 9]) toy_main (toy_cmd\<lparr>opt_nf := ''stats.txt''\<rparr>) =
        main (toy [9, 9, 9, 9, 9, 9]) toy_main (toy_cmd\<lparr>opt_nf := []\<rparr>)"
    using legal
    by (rule nf_has_no_effect [where M = toy_main and cmd = toy_cmd and a = "''stats.txt''"
          and b = "[]" and C = "toy [9, 9, 9, 9, 9, 9]"])
  with run same have both:
    "main (toy [9, 9, 9, 9, 9, 9]) toy_main (toy_cmd\<lparr>opt_nf := ''stats.txt''\<rparr>) =
       Main_return 0 evs"
    "main (toy [9, 9, 9, 9, 9, 9]) toy_main (toy_cmd\<lparr>opt_nf := []\<rparr>) = Main_return 0 evs"
    by simp_all
  from legal legal' both rep sav show ?thesis by blast
qed

end
